theory Spec2Isabelle
  imports Complex_Main
begin

section \<open>Order lifecycle, inventory and rating aggregation of the LocalLense marketplace\<close>

text \<open>
  The theory embeds the request handlers of \<^verbatim>\<open>routes/orders.js\<close> and
  \<^verbatim>\<open>routes/reviews.js\<close> together with the schema methods, virtuals and hooks of
  \<^verbatim>\<open>models/Product.js\<close>, \<^verbatim>\<open>models/Order.js\<close> and \<^verbatim>\<open>models/Review.js\<close>.

  Conventions of the embedding:
  \<^item> A JavaScript Number is an exact number: quantities and counters are \<open>int\<close>
    (the validation middleware admits integers only), prices and ratings are \<open>rat\<close>.
    The source computes in IEEE doubles. On integers below \<open>2 ^ 53\<close> (quantities, counters,
    milliseconds) the two agree; on prices, totals and rating averages they can differ, and no statement
    below is made about a value on which they do.
  \<^item> An ObjectId is a \<open>nat\<close>; a Date is its \<^verbatim>\<open>getTime()\<close> value in milliseconds.
  \<^item> The document store is a record of collections. \<^verbatim>\<open>findById\<close> is a lookup.
    \<^verbatim>\<open>save\<close> first validates the document (the library registers its validation as the
    first pre-save hook: every required path of a new document, the assigned paths of a loaded
    one), then runs the pre-save hooks declared in the schema, then stores the document.
  \<^item> A handler returns its response together with the store it leaves behind: a handler
    that fails half-way returns the store with the writes already made.
  \<^item> The clock reads, the fresh ObjectId and the random number of one request are its
    environment \<open>env\<close>.
  \<^item> Fields that no handler modelled here reads (titles, images, addresses, customization,
    comments) are left out of the records.
\<close>

subsection \<open>Documents\<close>

type_synonym oid = nat
type_synonym date = int

record Rating =
  average :: rat
  count :: int

record Product =
  artisan :: oid
  price_amount :: rat
  price_discount :: "rat option"
  inventory_quantity :: int
  inventory_trackInventory :: bool
  rating :: Rating
  stats_totalSold :: int
  isActive :: bool
  lastModified :: date

record Artisan =
  artisan_rating :: Rating

record OrderItem =
  item_product :: oid
  item_artisan :: oid
  item_quantity :: int
  item_price :: rat

record Pricing =
  pricing_subtotal :: rat
  pricing_shippingCost :: rat
  pricing_tax :: rat
  pricing_discount_amount :: rat
  pricing_totalAmount :: rat

record Payment =
  payment_method :: string
  payment_status :: string

record TimelineEntry =
  entry_status :: string
  entry_timestamp :: date
  entry_note :: string
  entry_updatedBy :: "oid option"

record Cancellation =
  reason :: "string option"
  cancelledBy :: oid
  cancelledAt :: date
  refundStatus :: string

record Order =
  orderNumber :: string
  customer :: oid
  items :: "OrderItem list"
  pricing :: Pricing
  payment :: Payment
  status :: string
  timeline :: "TimelineEntry list"
  actualDelivery :: "date option"
  cancellation :: "Cancellation option"
  createdAt :: date

record CartItem =
  cart_product :: oid
  cart_quantity :: int

text \<open>The authenticated user that \<^verbatim>\<open>authenticateToken\<close> puts into \<^verbatim>\<open>req.user\<close>.\<close>

record User =
  user_id :: oid
  role :: string

record env =
  now :: date
  newId :: oid
  random :: nat

text \<open>
  The outcomes of a request. The source answers with a status code and a message; the
  constructors name them as the specification's error taxonomy does:
  \<open>ValidationFailed\<close> is the 400 of the validation middleware, \<open>ItemUnavailable\<close> the 400
  "Product ... not found or inactive", \<open>InsufficientStock\<close> the 400 "Insufficient stock for ...",
  \<open>NotFound\<close> a 404, \<open>AccessDenied\<close> a 403, \<open>InvalidStatus\<close> the 400 "Invalid status",
  \<open>InvalidTransition\<close> the 400 "Order cannot be cancelled at this stage", \<open>NotEligible\<close> the
  400 "Order not found or not eligible for review", \<open>DuplicateReview\<close> the 400 "Review already
  exists for this product", \<open>AlreadyVoted\<close> the 400 "You have already voted on this review",
  and \<open>InternalError\<close> the 500 of a handler's \<^verbatim>\<open>catch\<close> block.
\<close>

datatype error =
    ValidationFailed
  | ItemUnavailable
  | InsufficientStock
  | NotFound
  | AccessDenied
  | InvalidStatus
  | InvalidTransition
  | NotEligible
  | DuplicateReview
  | AlreadyVoted
  | InternalError

subsection \<open>\<^verbatim>\<open>models/Product.js\<close>\<close>

text \<open>The virtual \<^verbatim>\<open>discountedPrice\<close>: an absent discount and a discount of 0 are both falsy.\<close>

definition discountedPrice :: "Product \<Rightarrow> rat" where
  "discountedPrice this =
     (case price_discount this of
        None \<Rightarrow> price_amount this
      | Some d \<Rightarrow> if d \<noteq> 0 \<and> d > 0 then price_amount this * (1 - d / 100)
                  else price_amount this)"

definition isAvailable :: "Product \<Rightarrow> int \<Rightarrow> bool" where
  "isAvailable this quantity =
     (if \<not> isActive this then False
      else if \<not> inventory_trackInventory this then True
      else inventory_quantity this \<ge> quantity)"

text \<open>
  \<^verbatim>\<open>product.save()\<close> after the handlers below assigned \<^verbatim>\<open>inventory.quantity\<close> and
  \<^verbatim>\<open>stats.totalSold\<close>: the pre-save hook stamps \<^verbatim>\<open>lastModified\<close> (the title is not
  modified, so no slug is generated), and the validator \<^verbatim>\<open>min: 0\<close> of
  \<^verbatim>\<open>inventory.quantity\<close> rejects a negative quantity. \<open>None\<close> is the rejected save.
\<close>

definition Product_save :: "date \<Rightarrow> Product \<Rightarrow> Product option" where
  "Product_save t this =
     (if inventory_quantity this < 0 then None
      else Some (this\<lparr>lastModified := t\<rparr>))"

subsection \<open>\<^verbatim>\<open>models/Order.js\<close>\<close>

definition canBeCancelled :: "Order \<Rightarrow> bool" where
  "canBeCancelled this = (status this \<in> set [''pending'', ''confirmed''])"

text \<open>\<^verbatim>\<open>canBeReturned\<close>, with \<^verbatim>\<open>Date.now()\<close> as the first argument.\<close>

definition canBeReturned :: "date \<Rightarrow> Order \<Rightarrow> bool" where
  "canBeReturned t this =
     (if status this \<noteq> ''delivered'' then False
      else let deliveryDate = (case actualDelivery this of Some d \<Rightarrow> d | None \<Rightarrow> createdAt this);
               daysSinceDelivery = (of_int (t - deliveryDate) :: rat) / (1000 * 60 * 60 * 24)
           in daysSinceDelivery \<le> 7)"

definition calculateRefundAmount :: "Order \<Rightarrow> rat" where
  "calculateRefundAmount this =
     (if payment_status (payment this) \<noteq> ''completed'' then 0
      else let refundAmount = pricing_totalAmount (pricing this);
               refundAmount = (if status this \<in> set [''shipped'', ''delivered'']
                               then refundAmount - pricing_shippingCost (pricing this)
                               else refundAmount)
           in max 0 refundAmount)"

text \<open>Decimal printing of a number, \<^verbatim>\<open>toString()\<close> on a non-negative integer.\<close>

definition digit :: "nat \<Rightarrow> char" where
  "digit d = ''0123456789'' ! d"

function toString :: "nat \<Rightarrow> string" where
  "toString n = (if n < 10 then [digit n] else toString (n div 10) @ [digit (n mod 10)])"
  by pat_completeness auto
termination
  by (relation "measure id") auto

definition padStart3 :: "string \<Rightarrow> string" where
  "padStart3 s = replicate (3 - length s) CHR ''0'' @ s"

definition slice_last6 :: "string \<Rightarrow> string" where
  "slice_last6 s = drop (length s - 6) s"

text \<open>
  The first pre-save hook: an order without an order number gets \<^verbatim>\<open>LL\<close>, the last six
  digits of the clock and three random digits. \<open>random e\<close> is
  \<^verbatim>\<open>Math.floor(Math.random() * 1000)\<close>. An unset order number is the empty string.
\<close>

definition generateOrderNumber :: "env \<Rightarrow> Order \<Rightarrow> Order" where
  "generateOrderNumber e this =
     (if orderNumber this = []
      then this\<lparr>orderNumber := ''LL'' @ slice_last6 (toString (nat (now e)))
                                  @ padStart3 (toString (random e))\<rparr>
      else this)"

text \<open>
  The second pre-save hook: when the status differs from the stored one
  (\<^verbatim>\<open>isModified('status')\<close>) and the document is not new, a timeline entry is pushed.
  The first argument is the stored document, \<open>None\<close> for a new one.
\<close>

definition addStatusToTimeline :: "env \<Rightarrow> Order option \<Rightarrow> Order \<Rightarrow> Order" where
  "addStatusToTimeline e stored this =
     (case stored of
        None \<Rightarrow> this
      | Some old \<Rightarrow>
          if status this \<noteq> status old
          then this\<lparr>timeline := timeline this @
                 [\<lparr>entry_status = status this, entry_timestamp = now e,
                   entry_note = ''Order status changed to '' @ status this,
                   entry_updatedBy = None\<rparr>]\<rparr>
          else this)"

subsection \<open>\<^verbatim>\<open>models/Review.js\<close>: documents\<close>

text \<open>
  A stored review has an overall rating (the schema requires it); the request body of an
  update may lack it.
\<close>

record ReviewRating =
  overall :: rat
  quality :: "rat option"
  craftsmanship :: "rat option"
  packaging :: "rat option"
  shipping :: "rat option"

record RatingBody =
  body_overall :: "rat option"
  body_quality :: "rat option"
  body_craftsmanship :: "rat option"
  body_packaging :: "rat option"
  body_shipping :: "rat option"

record Vote =
  vote_user :: oid
  vote_helpful :: bool
  votedAt :: date

record Response =
  response_comment :: string
  respondedAt :: date
  respondedBy :: oid

record Review =
  review_id :: oid
  review_product :: oid
  review_artisan :: oid
  review_customer :: oid
  review_order :: oid
  review_rating :: ReviewRating
  helpfulVotes :: int
  votedBy :: "Vote list"
  response :: "Response option"
  review_status :: string

subsection \<open>The document store\<close>

text \<open>
  Products, artisans, orders and carts are read by id only and are maps; the review
  collection is scanned by the handlers and the aggregation and is a list of documents.
\<close>

record state =
  products :: "oid \<rightharpoonup> Product"
  artisans :: "oid \<rightharpoonup> Artisan"
  orders :: "oid \<rightharpoonup> Order"
  reviews :: "Review list"
  carts :: "oid \<rightharpoonup> CartItem list"

text \<open>
  The validation that precedes the pre-save hooks of an order. The first argument is the
  document as it was loaded, \<open>None\<close> for a new document. Of a new document every required
  path is checked, and \<^verbatim>\<open>orderNumber\<close> is required (\<^verbatim>\<open>Order.js\<close>, lines 4 to 8): a
  document whose order number is unset (or the empty string) is refused. The other required
  paths of a new order are set by the handler or checked by the middleware. Of a loaded
  document only the assigned paths are checked; the handlers assign statuses of the schema's
  enumeration, timeline entries, dates and the cancellation record, which no validator
  refuses. An order in the store has an order number: the store accepts no other.
\<close>

definition Order_validate :: "Order option \<Rightarrow> Order \<Rightarrow> bool" where
  "Order_validate stored this =
     (case stored of
        None \<Rightarrow> orderNumber this \<noteq> []
      | Some loaded \<Rightarrow> True)"

text \<open>
  \<^verbatim>\<open>order.save()\<close>: the validation, then both pre-save hooks, then the document is stored
  under its id; the insert of a new document fails when the id is taken. The unique index on
  the order number is not modelled. \<open>None\<close> is the failed save. The generator of the order
  number is a pre-save hook and so comes after the validation: it cannot rescue a new
  document that has no order number.
\<close>

definition Order_save :: "env \<Rightarrow> Order option \<Rightarrow> oid \<Rightarrow> Order \<Rightarrow> state \<Rightarrow> (Order \<times> state) option" where
  "Order_save e stored oid this st =
     (if \<not> Order_validate stored this then None
      else let this = addStatusToTimeline e stored (generateOrderNumber e this)
           in if stored = None \<and> orders st oid \<noteq> None then None
              else Some (this, st\<lparr>orders := (orders st)(oid \<mapsto> this)\<rparr>))"

subsection \<open>\<^verbatim>\<open>routes/orders.js\<close>: \<^verbatim>\<open>POST /api/orders\<close>\<close>

record OrderRequestItem =
  product :: oid
  quantity :: int

record OrderBody =
  body_items :: "OrderRequestItem list"
  body_payment_method :: string

text \<open>
  The middleware \<^verbatim>\<open>validateOrderCreation\<close>, on the fields of the body that are modelled:
  at least one item, every quantity an integer that is at least 1, a known payment method.
  \<^verbatim>\<open>isInt\<close> tests the decimal print of the value, so a number from \<^verbatim>\<open>1e21\<close> on, which
  prints with an exponent, is refused. The body is typed JSON: a quantity is a number. A
  numeric string, which \<^verbatim>\<open>isInt\<close> admits as well and which the handler would not convert
  (\<^verbatim>\<open>totalSold += "3"\<close> concatenates), is outside the model.
\<close>

definition validateOrderCreation :: "OrderBody \<Rightarrow> bool" where
  "validateOrderCreation body =
     (length (body_items body) \<ge> 1 \<and>
      list_all (\<lambda>item. quantity item \<ge> 1 \<and> quantity item < 10 ^ 21) (body_items body) \<and>
      body_payment_method body \<in> set [''card'', ''upi'', ''netbanking'', ''wallet'', ''cod''])"

text \<open>
  The loop over the requested items, with the running \<^verbatim>\<open>subtotal\<close> and
  \<^verbatim>\<open>orderItems\<close>. Each item is looked up, checked and, when its product tracks inventory,
  written back at once; the store that is returned with an error holds the writes made for
  the items before. A product whose artisan document is missing is populated with
  \<^verbatim>\<open>null\<close>, and \<^verbatim>\<open>product.artisan._id\<close> throws.
\<close>

fun createOrder_loop ::
  "env \<Rightarrow> OrderRequestItem list \<Rightarrow> rat \<Rightarrow> OrderItem list \<Rightarrow> state
     \<Rightarrow> (error + rat \<times> OrderItem list) \<times> state" where
  "createOrder_loop e [] subtotal orderItems st = (Inr (subtotal, orderItems), st)"
| "createOrder_loop e (item # rest) subtotal orderItems st =
     (case products st (product item) of
        None \<Rightarrow> (Inl ItemUnavailable, st)
      | Some p \<Rightarrow>
          if \<not> isActive p then (Inl ItemUnavailable, st)
          else if \<not> isAvailable p (quantity item) then (Inl InsufficientStock, st)
          else
            let itemPrice = discountedPrice p;
                itemTotal = itemPrice * of_int (quantity item);
                subtotal = subtotal + itemTotal
            in (case artisans st (artisan p) of
                  None \<Rightarrow> (Inl InternalError, st)
                | Some a \<Rightarrow>
                    let orderItems = orderItems @
                          [\<lparr>item_product = product item, item_artisan = artisan p,
                            item_quantity = quantity item, item_price = itemPrice\<rparr>]
                    in if inventory_trackInventory p
                       then (case Product_save (now e)
                                    (p\<lparr>inventory_quantity := inventory_quantity p - quantity item,
                                       stats_totalSold := stats_totalSold p + quantity item\<rparr>) of
                               None \<Rightarrow> (Inl InternalError, st)
                             | Some p' \<Rightarrow>
                                 createOrder_loop e rest subtotal orderItems
                                   (st\<lparr>products := (products st)(product item \<mapsto> p')\<rparr>))
                       else createOrder_loop e rest subtotal orderItems st))"

text \<open>
  The handler proper: totals, the new order, its save, and the cart. The new order is built
  without an order number, as in the source (\<^verbatim>\<open>orders.js\<close>, lines 65 to 80). The prices and
  totals, which the source computes in doubles, are exact here; they live in the new document
  only.
\<close>

definition clearCart :: "oid \<Rightarrow> state \<Rightarrow> state" where
  "clearCart customerId st =
     (case carts st customerId of
        None \<Rightarrow> st
      | Some c \<Rightarrow> st\<lparr>carts := (carts st)(customerId \<mapsto> [])\<rparr>)"

definition createOrder :: "env \<Rightarrow> User \<Rightarrow> OrderBody \<Rightarrow> state \<Rightarrow> (error + Order) \<times> state" where
  "createOrder e user body st =
     (let customerId = user_id user
      in case createOrder_loop e (body_items body) 0 [] st of
           (Inl err, st1) \<Rightarrow> (Inl err, st1)
         | (Inr (subtotal, orderItems), st1) \<Rightarrow>
             let shippingCost = 0;
                 tax = subtotal * (18 / 100);
                 totalAmount = subtotal + shippingCost + tax;
                 order = \<lparr>orderNumber = [], customer = customerId, items = orderItems,
                          pricing = \<lparr>pricing_subtotal = subtotal,
                                      pricing_shippingCost = shippingCost, pricing_tax = tax,
                                      pricing_discount_amount = 0,
                                      pricing_totalAmount = totalAmount\<rparr>,
                          payment = \<lparr>payment_method = body_payment_method body,
                                      payment_status = (if body_payment_method body = ''cod''
                                                        then ''pending'' else ''processing'')\<rparr>,
                          status = ''pending'', timeline = [], actualDelivery = None,
                          cancellation = None, createdAt = now e\<rparr>
             in (case Order_save e None (newId e) order st1 of
                   None \<Rightarrow> (Inl InternalError, st1)
                 | Some (order, st2) \<Rightarrow> (Inr order, clearCart customerId st2)))"

definition post_orders :: "env \<Rightarrow> User \<Rightarrow> OrderBody \<Rightarrow> state \<Rightarrow> (error + Order) \<times> state" where
  "post_orders e user body st =
     (if validateOrderCreation body then createOrder e user body st
      else (Inl ValidationFailed, st))"

subsection \<open>\<^verbatim>\<open>routes/orders.js\<close>: \<^verbatim>\<open>PUT /api/orders/:id/status\<close>\<close>

text \<open>
  The note of the body is optional; \<^verbatim>\<open>if (note)\<close> holds when it is present and not the
  empty string.
\<close>

definition put_order_status ::
  "env \<Rightarrow> User \<Rightarrow> oid \<Rightarrow> string \<Rightarrow> string option \<Rightarrow> state \<Rightarrow> (error + Order) \<times> state" where
  "put_order_status e user oid new_status note st =
     (let validStatuses = [''confirmed'', ''processing'', ''shipped'', ''delivered'', ''cancelled'']
      in if new_status \<notin> set validStatuses then (Inl InvalidStatus, st)
         else case orders st oid of
           None \<Rightarrow> (Inl NotFound, st)
         | Some stored \<Rightarrow>
             let isArtisan = list_ex (\<lambda>item. item_artisan item = user_id user) (items stored);
                 isAdmin = (role user = ''admin'')
             in if \<not> isArtisan \<and> \<not> isAdmin then (Inl AccessDenied, st)
                else
                  let order = stored\<lparr>status := new_status\<rparr>;
                      order = (case note of
                                 None \<Rightarrow> order
                               | Some s \<Rightarrow>
                                   if s \<noteq> []
                                   then order\<lparr>timeline := timeline order @
                                          [\<lparr>entry_status = new_status,
                                            entry_timestamp = now e, entry_note = s,
                                            entry_updatedBy = Some (user_id user)\<rparr>]\<rparr>
                                   else order);
                      order = (if new_status = ''delivered''
                               then order\<lparr>actualDelivery := Some (now e)\<rparr> else order)
                  in (case Order_save e (Some stored) oid order st of
                        None \<Rightarrow> (Inl InternalError, st)
                      | Some (order, st1) \<Rightarrow> (Inr order, st1)))"

subsection \<open>\<^verbatim>\<open>routes/orders.js\<close>: \<^verbatim>\<open>POST /api/orders/:id/cancel\<close>\<close>

text \<open>
  The loop that restores the inventory of the order's items. A product that is missing or
  does not track inventory is skipped; a rejected save throws, and the store returned with
  the error holds the restorations made before.
\<close>

fun restoreInventory :: "env \<Rightarrow> OrderItem list \<Rightarrow> state \<Rightarrow> error option \<times> state" where
  "restoreInventory e [] st = (None, st)"
| "restoreInventory e (item # rest) st =
     (case products st (item_product item) of
        None \<Rightarrow> restoreInventory e rest st
      | Some p \<Rightarrow>
          if inventory_trackInventory p
          then (case Product_save (now e)
                       (p\<lparr>inventory_quantity := inventory_quantity p + item_quantity item,
                          stats_totalSold := stats_totalSold p - item_quantity item\<rparr>) of
                  None \<Rightarrow> (Some InternalError, st)
                | Some p' \<Rightarrow>
                    restoreInventory e rest
                      (st\<lparr>products := (products st)(item_product item \<mapsto> p')\<rparr>))
          else restoreInventory e rest st)"

definition post_order_cancel ::
  "env \<Rightarrow> User \<Rightarrow> oid \<Rightarrow> string option \<Rightarrow> state \<Rightarrow> (error + Order) \<times> state" where
  "post_order_cancel e user oid why st =
     (case orders st oid of
        None \<Rightarrow> (Inl NotFound, st)
      | Some stored \<Rightarrow>
          let isCustomer = (customer stored = user_id user)
          in if \<not> isCustomer \<and> role user \<noteq> ''admin'' then (Inl AccessDenied, st)
             else if \<not> canBeCancelled stored then (Inl InvalidTransition, st)
             else
               let order = stored\<lparr>status := ''cancelled'',
                             cancellation := Some \<lparr>reason = why, cancelledBy = user_id user,
                                                   cancelledAt = now e,
                                                   refundStatus = ''pending''\<rparr>\<rparr>
               in (case restoreInventory e (items order) st of
                     (Some err, st1) \<Rightarrow> (Inl err, st1)
                   | (None, st1) \<Rightarrow>
                       (case Order_save e (Some stored) oid order st1 of
                          None \<Rightarrow> (Inl InternalError, st1)
                        | Some (order, st2) \<Rightarrow> (Inr order, st2))))"

subsection \<open>\<^verbatim>\<open>models/Review.js\<close>: rating aggregation and votes\<close>

text \<open>\<^verbatim>\<open>Math.round\<close> rounds to the nearest integer, a tie towards plus infinity.\<close>

definition Math_round :: "rat \<Rightarrow> int" where
  "Math_round x = \<lfloor>x + 1 / 2\<rfloor>"

text \<open>
  The aggregation pipeline \<^verbatim>\<open>$match\<close>, \<^verbatim>\<open>$group\<close> on the matched documents: no group
  when nothing matches, otherwise the average of \<^verbatim>\<open>rating.overall\<close> and the number of
  documents. The rating object is built from it as in the source. The count is an integer.
  The average is computed exactly here and in doubles by the source; the two agree when the
  overall ratings are integers, which is what \<^verbatim>\<open>POST /api/reviews\<close> admits. For the
  fractional ratings that \<^verbatim>\<open>PUT /api/reviews/:id\<close> admits they can differ (the ratings 1.1
  and 4.6 give 2.8 in doubles and 29/10 exactly), and nothing is stated about the average
  of such ratings.
\<close>

definition ratingOf :: "Review list \<Rightarrow> Rating" where
  "ratingOf matched =
     (if length matched > 0
      then let averageRating = sum_list (map (\<lambda>r. overall (review_rating r)) matched)
                                 / of_nat (length matched);
               totalReviews = int (length matched)
           in \<lparr>average = of_int (Math_round (averageRating * 10)) / 10, count = totalReviews\<rparr>
      else \<lparr>average = 0, count = 0\<rparr>)"

text \<open>\<^verbatim>\<open>findByIdAndUpdate\<close> writes the rating when the document exists and runs no hook.\<close>

definition updateProductRating :: "oid \<Rightarrow> state \<Rightarrow> state" where
  "updateProductRating productId st =
     (let r = ratingOf (filter (\<lambda>r. review_product r = productId \<and> review_status r = ''approved'')
                          (reviews st))
      in case products st productId of
           None \<Rightarrow> st
         | Some p \<Rightarrow> st\<lparr>products := (products st)(productId \<mapsto> p\<lparr>rating := r\<rparr>)\<rparr>)"

definition updateArtisanRating :: "oid \<Rightarrow> state \<Rightarrow> state" where
  "updateArtisanRating artisanId st =
     (let r = ratingOf (filter (\<lambda>r. review_artisan r = artisanId \<and> review_status r = ''approved'')
                          (reviews st))
      in case artisans st artisanId of
           None \<Rightarrow> st
         | Some a \<Rightarrow> st\<lparr>artisans := (artisans st)(artisanId \<mapsto> a\<lparr>artisan_rating := r\<rparr>)\<rparr>)"

text \<open>The hooks \<^verbatim>\<open>post('save')\<close> and \<^verbatim>\<open>post('remove')\<close> have the same body.\<close>

definition Review_post_hook :: "Review \<Rightarrow> state \<Rightarrow> state" where
  "Review_post_hook this st = updateArtisanRating (review_artisan this)
                                (updateProductRating (review_product this) st)"

text \<open>
  The validators of the rating paths: \<^verbatim>\<open>overall\<close> is required, every axis that is
  present lies between 1 and 5. The result is the rating as stored, \<open>None\<close> a validation error.
\<close>

definition axis_ok :: "rat option \<Rightarrow> bool" where
  "axis_ok x = (case x of None \<Rightarrow> True | Some v \<Rightarrow> 1 \<le> v \<and> v \<le> 5)"

definition validateRating :: "RatingBody \<Rightarrow> ReviewRating option" where
  "validateRating b =
     (case body_overall b of
        None \<Rightarrow> None
      | Some ov \<Rightarrow>
          if 1 \<le> ov \<and> ov \<le> 5 \<and> axis_ok (body_quality b) \<and> axis_ok (body_craftsmanship b)
             \<and> axis_ok (body_packaging b) \<and> axis_ok (body_shipping b)
          then Some \<lparr>overall = ov, quality = body_quality b,
                     craftsmanship = body_craftsmanship b, packaging = body_packaging b,
                     shipping = body_shipping b\<rparr>
          else None)"

definition sameTriple :: "oid \<Rightarrow> oid \<Rightarrow> oid \<Rightarrow> Review \<Rightarrow> bool" where
  "sameTriple customerId productId orderId r =
     (review_customer r = customerId \<and> review_product r = productId \<and> review_order r = orderId)"

text \<open>
  \<^verbatim>\<open>review.save()\<close> of a new document: the insert is refused when the id is taken or the
  unique index on (customer, product, order) has the triple; then the post-save hook runs.
\<close>

definition Review_insert :: "Review \<Rightarrow> state \<Rightarrow> state option" where
  "Review_insert this st =
     (if list_ex (\<lambda>r. review_id r = review_id this) (reviews st)
         \<or> list_ex (sameTriple (review_customer this) (review_product this) (review_order this))
              (reviews st)
      then None
      else Some (Review_post_hook this (st\<lparr>reviews := reviews st @ [this]\<rparr>)))"

text \<open>
  \<^verbatim>\<open>review.save()\<close> of a loaded document: it replaces the stored document of that id (ids
  are unique in a collection), then the hook runs. \<^verbatim>\<open>review.remove()\<close> deletes the document
  of that id and runs the same hook.
\<close>

definition Review_update :: "Review \<Rightarrow> state \<Rightarrow> state" where
  "Review_update this st =
     Review_post_hook this
       (st\<lparr>reviews := map (\<lambda>r. if review_id r = review_id this then this else r) (reviews st)\<rparr>)"

definition Review_remove :: "Review \<Rightarrow> state \<Rightarrow> state" where
  "Review_remove this st =
     Review_post_hook this
       (st\<lparr>reviews := filter (\<lambda>r. review_id r \<noteq> review_id this) (reviews st)\<rparr>)"

definition canVote :: "Review \<Rightarrow> oid \<Rightarrow> bool" where
  "canVote this userId = (\<not> list_ex (\<lambda>vote. vote_user vote = userId) (votedBy this))"

text \<open>
  \<^verbatim>\<open>addVote\<close> without its final \<^verbatim>\<open>save\<close>, which the handler below performs:
  \<open>None\<close> is the thrown error.
\<close>

definition addVote :: "date \<Rightarrow> Review \<Rightarrow> oid \<Rightarrow> bool \<Rightarrow> Review option" where
  "addVote t this userId helpful =
     (if canVote this userId
      then let this = this\<lparr>votedBy := votedBy this @
                             [\<lparr>vote_user = userId, vote_helpful = helpful, votedAt = t\<rparr>]\<rparr>;
               this = (if helpful then this\<lparr>helpfulVotes := helpfulVotes this + 1\<rparr> else this)
           in Some this
      else None)"

subsection \<open>\<^verbatim>\<open>routes/reviews.js\<close>\<close>

record ReviewBody =
  body_productId :: oid
  body_orderId :: oid
  body_rating :: RatingBody

text \<open>
  The middleware \<^verbatim>\<open>validateReviewCreation\<close> on the rating: \<^verbatim>\<open>rating.overall\<close> is an
  integer from 1 to 5.
\<close>

definition validateReviewCreation :: "ReviewBody \<Rightarrow> bool" where
  "validateReviewCreation body =
     (case body_overall (body_rating body) of
        None \<Rightarrow> False
      | Some ov \<Rightarrow> ov \<in> set [1, 2, 3, 4, 5])"

text \<open>
  \<^verbatim>\<open>Order.findOne\<close> with the id, the customer, the status \<^verbatim>\<open>delivered\<close> and an item of
  the product.
\<close>

definition findDeliveredOrder :: "state \<Rightarrow> oid \<Rightarrow> oid \<Rightarrow> oid \<Rightarrow> Order option" where
  "findDeliveredOrder st orderId customerId productId =
     (case orders st orderId of
        None \<Rightarrow> None
      | Some order \<Rightarrow>
          if customer order = customerId \<and> status order = ''delivered''
             \<and> list_ex (\<lambda>item. item_product item = productId) (items order)
          then Some order else None)"

text \<open>
  \<^verbatim>\<open>order.items.find(item => item.product._id.toString() === productId)\<close> on the populated
  order: an item whose product document is missing is populated with \<^verbatim>\<open>null\<close> and the
  callback throws on it.
\<close>

fun findOrderItem :: "state \<Rightarrow> oid \<Rightarrow> OrderItem list \<Rightarrow> error + OrderItem option" where
  "findOrderItem st productId [] = Inr None"
| "findOrderItem st productId (item # rest) =
     (case products st (item_product item) of
        None \<Rightarrow> Inl InternalError
      | Some p \<Rightarrow> if item_product item = productId then Inr (Some item)
                  else findOrderItem st productId rest)"

definition createReview :: "env \<Rightarrow> User \<Rightarrow> ReviewBody \<Rightarrow> state \<Rightarrow> (error + Review) \<times> state" where
  "createReview e user body st =
     (let productId = body_productId body; orderId = body_orderId body;
          customerId = user_id user
      in case findDeliveredOrder st orderId customerId productId of
           None \<Rightarrow> (Inl NotEligible, st)
         | Some order \<Rightarrow>
             if list_ex (sameTriple customerId productId orderId) (reviews st)
             then (Inl DuplicateReview, st)
             else (case findOrderItem st productId (items order) of
                     Inl err \<Rightarrow> (Inl err, st)
                   | Inr None \<Rightarrow> (Inl InternalError, st)
                   | Inr (Some orderItem) \<Rightarrow>
                       (case artisans st (item_artisan orderItem) of
                          None \<Rightarrow> (Inl InternalError, st)
                        | Some a \<Rightarrow>
                            let artisanId = item_artisan orderItem
                            in (case validateRating (body_rating body) of
                                  None \<Rightarrow> (Inl InternalError, st)
                                | Some r \<Rightarrow>
                                    let review = \<lparr>review_id = newId e, review_product = productId,
                                                   review_artisan = artisanId,
                                                   review_customer = customerId,
                                                   review_order = orderId, review_rating = r,
                                                   helpfulVotes = 0, votedBy = [], response = None,
                                                   review_status = ''approved''\<rparr>
                                    in (case Review_insert review st of
                                          None \<Rightarrow> (Inl InternalError, st)
                                        | Some st1 \<Rightarrow> (Inr review, st1))))))"

definition post_reviews :: "env \<Rightarrow> User \<Rightarrow> ReviewBody \<Rightarrow> state \<Rightarrow> (error + Review) \<times> state" where
  "post_reviews e user body st =
     (if validateReviewCreation body then createReview e user body st
      else (Inl ValidationFailed, st))"

text \<open>\<^verbatim>\<open>Review.findOne({_id, customer})\<close>\<close>

definition findOwnReview :: "state \<Rightarrow> oid \<Rightarrow> oid \<Rightarrow> Review option" where
  "findOwnReview st rid customerId =
     find (\<lambda>r. review_id r = rid \<and> review_customer r = customerId) (reviews st)"

definition findReviewById :: "state \<Rightarrow> oid \<Rightarrow> Review option" where
  "findReviewById st rid = find (\<lambda>r. review_id r = rid) (reviews st)"

text \<open>
  \<^verbatim>\<open>PUT /api/reviews/:id\<close>: of the allowed updates only \<^verbatim>\<open>rating\<close> is modelled; \<open>None\<close>
  is a body without that key. An assigned rating replaces the stored one and is validated
  by the save.
\<close>

definition put_review :: "env \<Rightarrow> User \<Rightarrow> oid \<Rightarrow> RatingBody option \<Rightarrow> state \<Rightarrow> (error + Review) \<times> state" where
  "put_review e user rid updates st =
     (case findOwnReview st rid (user_id user) of
        None \<Rightarrow> (Inl NotFound, st)
      | Some review \<Rightarrow>
          (case updates of
             None \<Rightarrow> (Inr review, Review_update review st)
           | Some b \<Rightarrow>
               (case validateRating b of
                  None \<Rightarrow> (Inl InternalError, st)
                | Some r \<Rightarrow>
                    let review = review\<lparr>review_rating := r\<rparr>
                    in (Inr review, Review_update review st))))"

definition delete_review :: "env \<Rightarrow> User \<Rightarrow> oid \<Rightarrow> state \<Rightarrow> (error + unit) \<times> state" where
  "delete_review e user rid st =
     (case findOwnReview st rid (user_id user) of
        None \<Rightarrow> (Inl NotFound, st)
      | Some review \<Rightarrow> (Inr (), Review_remove review st))"

text \<open>
  \<^verbatim>\<open>POST /api/reviews/:id/helpful\<close>: \<^verbatim>\<open>helpful\<close> defaults to \<^verbatim>\<open>true\<close> when the body
  has no such key. The response carries the new tally.
\<close>

definition post_review_helpful ::
  "env \<Rightarrow> User \<Rightarrow> oid \<Rightarrow> bool option \<Rightarrow> state \<Rightarrow> (error + int) \<times> state" where
  "post_review_helpful e user rid helpful_opt st =
     (let helpful = (case helpful_opt of None \<Rightarrow> True | Some h \<Rightarrow> h)
      in case findReviewById st rid of
           None \<Rightarrow> (Inl NotFound, st)
         | Some review \<Rightarrow>
             if \<not> canVote review (user_id user) then (Inl AlreadyVoted, st)
             else (case addVote (now e) review (user_id user) helpful of
                     None \<Rightarrow> (Inl InternalError, st)
                   | Some review \<Rightarrow> (Inr (helpfulVotes review), Review_update review st)))"

definition post_review_respond ::
  "env \<Rightarrow> User \<Rightarrow> oid \<Rightarrow> string \<Rightarrow> state \<Rightarrow> (error + Review) \<times> state" where
  "post_review_respond e user rid comment st =
     (case findReviewById st rid of
        None \<Rightarrow> (Inl NotFound, st)
      | Some review \<Rightarrow>
          if review_artisan review \<noteq> user_id user then (Inl AccessDenied, st)
          else let review = review\<lparr>response := Some \<lparr>response_comment = comment,
                                                      respondedAt = now e,
                                                      respondedBy = user_id user\<rparr>\<rparr>
               in (Inr review, Review_update review st))"

subsection \<open>Requests\<close>

text \<open>
  The requests modelled above, and the store a request leaves behind. They are all the
  routes of the repository that write an order or a review; the product, artisan and user
  routes and the restock script write products, artisans and users only.
\<close>

datatype request =
    PostOrder OrderBody
  | PutOrderStatus oid string "string option"
  | PostOrderCancel oid "string option"
  | PostReview ReviewBody
  | PutReview oid "RatingBody option"
  | DeleteReview oid
  | PostReviewHelpful oid "bool option"
  | PostReviewRespond oid string

fun handle :: "env \<Rightarrow> User \<Rightarrow> request \<Rightarrow> state \<Rightarrow> state" where
  "handle e user (PostOrder body) st = snd (post_orders e user body st)"
| "handle e user (PutOrderStatus oid s note) st = snd (put_order_status e user oid s note st)"
| "handle e user (PostOrderCancel oid why) st = snd (post_order_cancel e user oid why st)"
| "handle e user (PostReview body) st = snd (post_reviews e user body st)"
| "handle e user (PutReview rid updates) st = snd (put_review e user rid updates st)"
| "handle e user (DeleteReview rid) st = snd (delete_review e user rid st)"
| "handle e user (PostReviewHelpful rid h) st = snd (post_review_helpful e user rid h st)"
| "handle e user (PostReviewRespond rid c) st = snd (post_review_respond e user rid c st)"

fun run :: "(env \<times> User \<times> request) list \<Rightarrow> state \<Rightarrow> state" where
  "run [] st = st"
| "run ((e, user, req) # rest) st = run rest (handle e user req st)"

subsection \<open>Notions of the specification\<close>






text \<open>
  The two unique indexes of the review collection: the document id, and the index on
  (customer, product, order) declared in the schema.
\<close>

definition uniqueIds :: "state \<Rightarrow> bool" where
  "uniqueIds st = distinct (map review_id (reviews st))"

definition uniqueTriples :: "state \<Rightarrow> bool" where
  "uniqueTriples st =
     distinct (map (\<lambda>r. (review_customer r, review_product r, review_order r)) (reviews st))"

subsection \<open>An example store\<close>

text \<open>
  A small store for the scenarios of the specification: a tracked bowl with ten pieces in
  stock and a discount of 10%, a poster that does not track inventory, and a tracked vase
  that is out of stock. The buyer has the bowl in the cart.
\<close>

definition bowl :: Product where
  "bowl = \<lparr>artisan = 20, price_amount = 200, price_discount = Some 10,
            inventory_quantity = 10, inventory_trackInventory = True,
            rating = \<lparr>average = 0, count = 0\<rparr>, stats_totalSold = 0,
            isActive = True, lastModified = 0\<rparr>"

definition poster :: Product where
  "poster = \<lparr>artisan = 20, price_amount = 50, price_discount = None,
              inventory_quantity = 0, inventory_trackInventory = False,
              rating = \<lparr>average = 0, count = 0\<rparr>, stats_totalSold = 0,
              isActive = True, lastModified = 0\<rparr>"

definition vase :: Product where
  "vase = \<lparr>artisan = 20, price_amount = 900, price_discount = Some 0,
            inventory_quantity = 0, inventory_trackInventory = True,
            rating = \<lparr>average = 0, count = 0\<rparr>, stats_totalSold = 4,
            isActive = True, lastModified = 0\<rparr>"

definition shop :: state where
  "shop = \<lparr>products = [11 \<mapsto> bowl, 12 \<mapsto> poster, 14 \<mapsto> vase],
            artisans = [20 \<mapsto> \<lparr>artisan_rating = \<lparr>average = 0, count = 0\<rparr>\<rparr>],
            orders = Map.empty,
            reviews = [],
            carts = [7 \<mapsto> [\<lparr>cart_product = 11, cart_quantity = 3\<rparr>]]\<rparr>"

definition buyer :: User where
  "buyer = \<lparr>user_id = 7, role = ''customer''\<rparr>"

definition seller :: User where
  "seller = \<lparr>user_id = 20, role = ''artisan''\<rparr>"

definition admin :: User where
  "admin = \<lparr>user_id = 99, role = ''admin''\<rparr>"

definition env1 :: env where
  "env1 = \<lparr>now = 1700000000000, newId = 100, random = 42\<rparr>"

definition env2 :: env where
  "env2 = \<lparr>now = 1700000600000, newId = 101, random = 7\<rparr>"

definition env3 :: env where
  "env3 = \<lparr>now = 1700001200000, newId = 102, random = 999\<rparr>"

text \<open>The buyer orders three bowls and two posters, cash on delivery.\<close>

definition body1 :: OrderBody where
  "body1 = \<lparr>body_items = [\<lparr>product = 11, quantity = 3\<rparr>, \<lparr>product = 12, quantity = 2\<rparr>],
             body_payment_method = ''cod''\<rparr>"

text \<open>
  A store that holds such an order, as a creation is meant to leave it: the order under the
  id 100 with its order number, the stock of the bowl lowered by three, the cart emptied.
\<close>

definition order1 :: Order where
  "order1 = \<lparr>orderNumber = ''LL000000042'', customer = 7,
              items = [\<lparr>item_product = 11, item_artisan = 20, item_quantity = 3,
                        item_price = 180\<rparr>,
                       \<lparr>item_product = 12, item_artisan = 20, item_quantity = 2,
                        item_price = 50\<rparr>],
              pricing = \<lparr>pricing_subtotal = 640, pricing_shippingCost = 0,
                          pricing_tax = 576 / 5, pricing_discount_amount = 0,
                          pricing_totalAmount = 3776 / 5\<rparr>,
              payment = \<lparr>payment_method = ''cod'', payment_status = ''pending''\<rparr>,
              status = ''pending'', timeline = [], actualDelivery = None,
              cancellation = None, createdAt = 1700000000000\<rparr>"

definition shop1 :: state where
  "shop1 = shop\<lparr>products := (products shop)
                    (11 \<mapsto> bowl\<lparr>inventory_quantity := 7, stats_totalSold := 3,
                                  lastModified := 1700000000000\<rparr>),
                orders := [100 \<mapsto> order1],
                carts := [7 \<mapsto> []]\<rparr>"

text \<open>The seller confirms the order; later the buyer cancels it.\<close>

definition shop2 :: state where
  "shop2 = snd (put_order_status env2 seller 100 ''confirmed'' None shop1)"

definition shop3 :: state where
  "shop3 = snd (post_order_cancel env3 buyer 100 None shop2)"

text \<open>
  An order for three bowls, a product that does not exist, and two posters; the store it
  leaves behind, which holds the lowered stock of the bowl and no order; and an order for the
  vase that is out of stock.
\<close>

definition body_missing :: OrderBody where
  "body_missing = \<lparr>body_items = [\<lparr>product = 11, quantity = 3\<rparr>] @ \<lparr>product = 13, quantity = 1\<rparr>
                                  # [\<lparr>product = 12, quantity = 2\<rparr>],
                    body_payment_method = ''card''\<rparr>"

definition shop_partial :: state where
  "shop_partial = shop\<lparr>products := (products shop)
                    (11 \<mapsto> bowl\<lparr>inventory_quantity := 7, stats_totalSold := 3,
                                  lastModified := 1700000000000\<rparr>)\<rparr>"

definition body_vase :: OrderBody where
  "body_vase = \<lparr>body_items = [\<lparr>product = 14, quantity = 1\<rparr>], body_payment_method = ''card''\<rparr>"

text \<open>The order of the example, delivered.\<close>

definition shop_delivered :: state where
  "shop_delivered = snd (put_order_status env2 seller 100 ''delivered'' None shop1)"

text \<open>
  The store with the delivered order and three earlier reviews of the bowl by other
  customers: two approved ones with 5 and 4 stars, and a rejected one with 1 star.
\<close>

definition earlier_review :: "oid \<Rightarrow> oid \<Rightarrow> oid \<Rightarrow> rat \<Rightarrow> string \<Rightarrow> Review" where
  "earlier_review rid customerId orderId stars st =
     \<lparr>review_id = rid, review_product = 11, review_artisan = 20,
      review_customer = customerId, review_order = orderId,
      review_rating = \<lparr>overall = stars, quality = None, craftsmanship = None,
                        packaging = None, shipping = None\<rparr>,
      helpfulVotes = 0, votedBy = [], response = None, review_status = st\<rparr>"

definition shop_reviewed :: state where
  "shop_reviewed = shop_delivered\<lparr>reviews :=
     [earlier_review 201 8 90 5 ''approved'', earlier_review 202 9 91 4 ''approved'',
      earlier_review 203 10 92 1 ''rejected'']\<rparr>"

text \<open>The buyer reviews the bowl of the delivered order with 4 stars.\<close>

definition review_body :: ReviewBody where
  "review_body = \<lparr>body_productId = 11, body_orderId = 100,
                   body_rating = \<lparr>body_overall = Some 4, body_quality = Some 5,
                                   body_craftsmanship = None, body_packaging = None,
                                   body_shipping = None\<rparr>\<rparr>"

definition env4 :: env where
  "env4 = \<lparr>now = 1700100000000, newId = 204, random = 1\<rparr>"

definition env5 :: env where
  "env5 = \<lparr>now = 1700200000000, newId = 205, random = 2\<rparr>"

definition shop_reviewed1 :: state where
  "shop_reviewed1 = snd (post_reviews env4 buyer review_body shop_reviewed)"

text \<open>Then the buyer lowers the rating to 1 star, and at last deletes the review.\<close>

definition one_star :: RatingBody where
  "one_star = \<lparr>body_overall = Some 1, body_quality = None, body_craftsmanship = None,
                body_packaging = None, body_shipping = None\<rparr>"

definition shop_reviewed2 :: state where
  "shop_reviewed2 = snd (put_review env5 buyer 204 (Some one_star) shop_reviewed1)"

definition shop_reviewed3 :: state where
  "shop_reviewed3 = snd (delete_review env5 buyer 204 shop_reviewed2)"

text \<open>The same review given in a store without earlier reviews, and its deletion.\<close>

definition shop_single :: state where
  "shop_single = snd (post_reviews env4 buyer review_body shop_delivered)"

definition shop_single1 :: state where
  "shop_single1 = snd (delete_review env5 buyer 204 shop_single)"

text \<open>Another customer, who votes on the reviews.\<close>

definition reader :: User where
  "reader = \<lparr>user_id = 8, role = ''customer''\<rparr>"
section \<open>Properties of the loops and of the store\<close>

declare toString.simps [simp del]

lemma createOrder_loop_frame:
  "createOrder_loop e its sub ois st = (res, st') \<Longrightarrow>
     orders st' = orders st \<and> carts st' = carts st \<and> reviews st' = reviews st
     \<and> artisans st' = artisans st"
  by (induction its arbitrary: sub ois st)
     (auto simp: Let_def split: option.splits if_splits)

lemma createOrder_loop_append:
  "createOrder_loop e (xs @ ys) sub ois st =
     (case createOrder_loop e xs sub ois st of
        (Inl err, st1) \<Rightarrow> (Inl err, st1)
      | (Inr (sub1, ois1), st1) \<Rightarrow> createOrder_loop e ys sub1 ois1 st1)"
  by (induction xs arbitrary: sub ois st)
     (auto simp: Let_def split: option.splits if_splits)

lemma createOrder_loop_untracked:
  "createOrder_loop e its sub ois st = (res, st') \<Longrightarrow>
   products st pid = Some p \<Longrightarrow> \<not> inventory_trackInventory p \<Longrightarrow>
   products st' pid = Some p"
proof (induction its arbitrary: sub ois st)
  case Nil
  then show ?case by simp
next
  case (Cons a its)
  show ?case
  proof (cases "products st (product a)")
    case None
    with Cons.prems show ?thesis by simp
  next
    case (Some x)
    show ?thesis
    proof (cases "inventory_trackInventory x")
      case True
      with Some Cons.prems have ne: "pid \<noteq> product a" by auto
      with Cons.prems Some True Cons.IH show ?thesis
        by (auto simp: Let_def split: option.splits if_splits)
    next
      case False
      with Cons.prems Some Cons.IH show ?thesis
        by (auto simp: Let_def split: option.splits if_splits)
    qed
  qed
qed

lemma createOrder_loop_tracked:
  "createOrder_loop e its sub ois st = (Inr r, st') \<Longrightarrow>
   products st pid = Some p \<Longrightarrow> inventory_trackInventory p \<Longrightarrow>
   \<exists>p'. products st' pid = Some p'
     \<and> inventory_trackInventory p'
     \<and> inventory_quantity p' = inventory_quantity p
          - (\<Sum>i\<leftarrow>filter (\<lambda>i. product i = pid) its. quantity i)
     \<and> stats_totalSold p' = stats_totalSold p
          + (\<Sum>i\<leftarrow>filter (\<lambda>i. product i = pid) its. quantity i)"
proof (induction its arbitrary: sub ois st p)
  case Nil
  then show ?case by simp
next
  case (Cons a its)
  from Cons.prems(1) obtain x where x: "products st (product a) = Some x"
    by (auto split: option.splits)
  show ?case
  proof (cases "inventory_trackInventory x")
    case False
    with Cons.prems x have ne: "pid \<noteq> product a" by auto
    from Cons.prems x False have
      "createOrder_loop e its (sub + discountedPrice x * of_int (quantity a))
         (ois @ [\<lparr>item_product = product a, item_artisan = artisan x,
                  item_quantity = quantity a, item_price = discountedPrice x\<rparr>]) st = (Inr r, st')"
      by (auto simp: Let_def split: option.splits if_splits)
    from Cons.IH[OF this Cons.prems(2,3)] ne show ?thesis by auto
  next
    case True
    from Cons.prems x True obtain x' where
      sv: "Product_save (now e)
             (x\<lparr>inventory_quantity := inventory_quantity x - quantity a,
                stats_totalSold := stats_totalSold x + quantity a\<rparr>) = Some x'"
      and rec: "createOrder_loop e its (sub + discountedPrice x * of_int (quantity a))
         (ois @ [\<lparr>item_product = product a, item_artisan = artisan x,
                  item_quantity = quantity a, item_price = discountedPrice x\<rparr>])
         (st\<lparr>products := (products st)(product a \<mapsto> x')\<rparr>) = (Inr r, st')"
      by (auto simp: Let_def split: option.splits if_splits)
    show ?thesis
    proof (cases "pid = product a")
      case False
      with Cons.prems have "products (st\<lparr>products := (products st)(product a \<mapsto> x')\<rparr>) pid = Some p"
        by simp
      from Cons.IH[OF rec this Cons.prems(3)] False show ?thesis by auto
    next
      case eq: True
      with x Cons.prems have px: "x = p" by simp
      from sv have x': "x' = x\<lparr>inventory_quantity := inventory_quantity x - quantity a,
                stats_totalSold := stats_totalSold x + quantity a, lastModified := now e\<rparr>"
        by (auto simp: Product_save_def split: if_splits)
      have "products (st\<lparr>products := (products st)(product a \<mapsto> x')\<rparr>) pid = Some x'"
        using eq by simp
      moreover have "inventory_trackInventory x'" using x' True by simp
      ultimately obtain p' where "products st' pid = Some p'" "inventory_trackInventory p'"
        "inventory_quantity p' = inventory_quantity x'
          - (\<Sum>i\<leftarrow>filter (\<lambda>i. product i = pid) its. quantity i)"
        "stats_totalSold p' = stats_totalSold x'
          + (\<Sum>i\<leftarrow>filter (\<lambda>i. product i = pid) its. quantity i)"
        using Cons.IH[OF rec] by blast
      then show ?thesis using eq x' px by auto
    qed
  qed
qed

lemma restoreInventory_frame:
  "restoreInventory e its st = (res, st') \<Longrightarrow>
     orders st' = orders st \<and> carts st' = carts st \<and> reviews st' = reviews st
     \<and> artisans st' = artisans st"
  by (induction its arbitrary: st)
     (auto simp: Let_def split: option.splits if_splits)

lemma restoreInventory_untracked:
  "restoreInventory e its st = (res, st') \<Longrightarrow>
   products st pid = Some p \<Longrightarrow> \<not> inventory_trackInventory p \<Longrightarrow>
   products st' pid = Some p"
proof (induction its arbitrary: st)
  case Nil
  then show ?case by simp
next
  case (Cons a its)
  show ?case
  proof (cases "products st (item_product a)")
    case None
    with Cons.prems Cons.IH show ?thesis by auto
  next
    case (Some x)
    show ?thesis
    proof (cases "inventory_trackInventory x")
      case True
      with Some Cons.prems have ne: "pid \<noteq> item_product a" by auto
      with Cons.prems Some True Cons.IH show ?thesis
        by (auto simp: Let_def split: option.splits if_splits)
    next
      case False
      with Cons.prems Some Cons.IH show ?thesis
        by (auto simp: Let_def split: option.splits if_splits)
    qed
  qed
qed

lemma hooks_frame:
  "pricing (addStatusToTimeline e stored (generateOrderNumber e this)) = pricing this"
  "items (addStatusToTimeline e stored (generateOrderNumber e this)) = items this"
  "customer (addStatusToTimeline e stored (generateOrderNumber e this)) = customer this"
  "status (addStatusToTimeline e stored (generateOrderNumber e this)) = status this"
  "createdAt (addStatusToTimeline e stored (generateOrderNumber e this)) = createdAt this"
  "actualDelivery (addStatusToTimeline e stored (generateOrderNumber e this)) = actualDelivery this"
  "cancellation (addStatusToTimeline e stored (generateOrderNumber e this)) = cancellation this"
  "payment (addStatusToTimeline e stored (generateOrderNumber e this)) = payment this"
  by (simp_all add: addStatusToTimeline_def generateOrderNumber_def split: option.splits)

lemma Order_save_Some:
  "Order_save e stored oid this st = Some (o', st') \<Longrightarrow>
     o' = addStatusToTimeline e stored (generateOrderNumber e this)
     \<and> st' = st\<lparr>orders := (orders st)(oid \<mapsto> o')\<rparr>
     \<and> (stored = None \<longrightarrow> orders st oid = None)"
  by (auto simp: Order_save_def Let_def split: if_splits)

lemma Order_save_new:
  "orderNumber this = [] \<Longrightarrow> Order_save e None oid this st = None"
  by (simp add: Order_save_def Order_validate_def)

lemma post_orders_refused:
  "isl (fst (post_orders e user body st))"
  "orders (snd (post_orders e user body st)) = orders st"
  "carts (snd (post_orders e user body st)) = carts st"
proof -
  obtain res st1 where l: "createOrder_loop e (body_items body) 0 [] st = (res, st1)"
    by (cases "createOrder_loop e (body_items body) 0 [] st")
  from createOrder_loop_frame[OF l] have fr: "orders st1 = orders st" "carts st1 = carts st"
    by simp_all
  have c: "isl (fst (createOrder e user body st))
         \<and> orders (snd (createOrder e user body st)) = orders st
         \<and> carts (snd (createOrder e user body st)) = carts st"
  proof (cases res)
    case (Inl err)
    with l fr show ?thesis by (simp add: createOrder_def)
  next
    case (Inr r)
    obtain sub ois where "r = (sub, ois)" by (cases r)
    with l Inr fr show ?thesis
      by (simp add: createOrder_def Let_def Order_save_new)
  qed
  from c show "isl (fst (post_orders e user body st))"
    by (simp add: post_orders_def)
  from c show "orders (snd (post_orders e user body st)) = orders st"
    by (simp add: post_orders_def)
  from c show "carts (snd (post_orders e user body st)) = carts st"
    by (simp add: post_orders_def)
qed

lemma Order_save_loaded:
  "Order_save e (Some stored) oid this st =
     Some (addStatusToTimeline e (Some stored) (generateOrderNumber e this),
           st\<lparr>orders := (orders st)
                  (oid \<mapsto> addStatusToTimeline e (Some stored) (generateOrderNumber e this))\<rparr>)"
  by (simp add: Order_save_def Order_validate_def Let_def)

lemma updateProductRating_frame:
  "orders (updateProductRating pid st) = orders st"
  "reviews (updateProductRating pid st) = reviews st"
  "artisans (updateProductRating pid st) = artisans st"
  "carts (updateProductRating pid st) = carts st"
  by (simp_all add: updateProductRating_def Let_def split: option.splits)

lemma updateArtisanRating_frame:
  "orders (updateArtisanRating aid st) = orders st"
  "reviews (updateArtisanRating aid st) = reviews st"
  "products (updateArtisanRating aid st) = products st"
  "carts (updateArtisanRating aid st) = carts st"
  by (simp_all add: updateArtisanRating_def Let_def split: option.splits)

lemma Review_post_hook_frame:
  "orders (Review_post_hook r st) = orders st"
  "reviews (Review_post_hook r st) = reviews st"
  "carts (Review_post_hook r st) = carts st"
  by (simp_all add: Review_post_hook_def updateProductRating_frame updateArtisanRating_frame)

lemma post_order_cancel_Inr:
  assumes "post_order_cancel e user oid why st = (Inr oc, st2)"
  shows "\<exists>stored st1.
           orders st oid = Some stored
         \<and> (customer stored = user_id user \<or> role user = ''admin'')
         \<and> canBeCancelled stored
         \<and> restoreInventory e (items stored) st = (None, st1)
         \<and> oc = addStatusToTimeline e (Some stored) (generateOrderNumber e
                  (stored\<lparr>status := ''cancelled'',
                     cancellation := Some \<lparr>reason = why, cancelledBy = user_id user,
                                           cancelledAt = now e, refundStatus = ''pending''\<rparr>\<rparr>))
         \<and> st2 = st1\<lparr>orders := (orders st1)(oid \<mapsto> oc)\<rparr>"
proof -
  from assms obtain stored where s: "orders st oid = Some stored"
    by (auto simp: post_order_cancel_def split: option.splits)
  obtain res st1 where r: "restoreInventory e (items stored) st = (res, st1)"
    by (cases "restoreInventory e (items stored) st")
  from assms s r show ?thesis
    by (cases res)
       (auto simp: post_order_cancel_def Let_def Order_save_loaded split: if_splits)
qed

lemma createOrder_loop_fails:
  assumes "case products st (product bad) of None \<Rightarrow> True
           | Some p \<Rightarrow> \<not> isActive p \<or> \<not> isAvailable p (quantity bad)"
  shows "createOrder_loop e (bad # rest) sub ois st =
           (Inl (case products st (product bad) of
                   None \<Rightarrow> ItemUnavailable
                 | Some p \<Rightarrow> if \<not> isActive p then ItemUnavailable else InsufficientStock), st)"
  using assms by (auto split: option.splits)

subsection \<open>Reviews and ratings\<close>






lemma post_reviews_Inr:
  assumes "post_reviews e user body st = (Inr r, st')"
  shows "st' = Review_post_hook r (st\<lparr>reviews := reviews st @ [r]\<rparr>)
       \<and> review_customer r = user_id user \<and> review_product r = body_productId body
       \<and> review_order r = body_orderId body \<and> review_id r = newId e
       \<and> review_status r = ''approved''
       \<and> body_overall (body_rating body) = Some (overall (review_rating r))
       \<and> \<not> list_ex (\<lambda>x. review_id x = review_id r) (reviews st)
       \<and> \<not> list_ex (sameTriple (user_id user) (body_productId body) (body_orderId body)) (reviews st)
       \<and> findDeliveredOrder st (body_orderId body) (user_id user) (body_productId body) \<noteq> None"
  using assms
  by (auto simp: post_reviews_def createReview_def Let_def Review_insert_def validateRating_def
           split: if_splits option.splits sum.splits)



subsection \<open>The unique indexes of the review collection\<close>

lemma order_handlers_reviews:
  "reviews (snd (post_orders e user body st)) = reviews st"
  "reviews (snd (put_order_status e user oid s note st)) = reviews st"
  "reviews (snd (post_order_cancel e user oid why st)) = reviews st"
proof -
  show "reviews (snd (post_orders e user body st)) = reviews st"
  proof (cases "createOrder_loop e (body_items body) 0 [] st")
    case (Pair res s1)
    then have fr: "reviews s1 = reviews st" using createOrder_loop_frame by blast
    show ?thesis
    proof (cases res)
      case (Inl err)
      with Pair fr show ?thesis by (simp add: post_orders_def createOrder_def)
    next
      case (Inr r)
      obtain sub ois where "r = (sub, ois)" by (cases r)
      with Pair Inr fr show ?thesis
        by (auto simp: post_orders_def createOrder_def Let_def clearCart_def
              dest!: Order_save_Some split: option.splits)
    qed
  qed
  show "reviews (snd (put_order_status e user oid s note st)) = reviews st"
    by (auto simp: put_order_status_def Let_def Order_save_loaded split: option.splits)
  show "reviews (snd (post_order_cancel e user oid why st)) = reviews st"
  proof (cases "orders st oid")
    case None
    then show ?thesis by (simp add: post_order_cancel_def)
  next
    case (Some stored)
    obtain res s1 where r: "restoreInventory e (items stored) st = (res, s1)"
      by (cases "restoreInventory e (items stored) st")
    then have "reviews s1 = reviews st" using restoreInventory_frame by blast
    with Some r show ?thesis
      by (cases res) (auto simp: post_order_cancel_def Let_def Order_save_loaded)
  qed
qed

lemma find_replaced:
  "find (\<lambda>x. review_id x = rid) rs = Some r \<Longrightarrow> review_id r' = rid \<Longrightarrow>
   find (\<lambda>x. review_id x = rid) (map (\<lambda>x. if review_id x = review_id r' then r' else x) rs)
     = Some r'"
  by (induction rs) (auto split: if_splits)

lemma replace_keeps_keys:
  assumes "distinct (map review_id rs)" and "r \<in> set rs"
    and "review_id r' = review_id r" and "f r' = f r"
  shows "map f (map (\<lambda>x. if review_id x = review_id r' then r' else x) rs) = map f rs"
proof -
  have inj: "inj_on review_id (set rs)" using assms(1) by (simp add: distinct_map)
  have "f (if review_id x = review_id r' then r' else x) = f x" if "x \<in> set rs" for x
  proof (cases "review_id x = review_id r'")
    case True
    with assms(3) have "review_id x = review_id r" by simp
    with inj that assms(2) have "x = r" by (auto dest: inj_onD)
    with True assms(4) show ?thesis by simp
  next
    case False
    then show ?thesis by simp
  qed
  then show ?thesis by (simp cong: map_cong)
qed

lemma Review_update_indexes:
  assumes "uniqueIds st" and "uniqueTriples st" and "r \<in> set (reviews st)"
    and "review_id r' = review_id r" and "review_customer r' = review_customer r"
    and "review_product r' = review_product r" and "review_order r' = review_order r"
  shows "uniqueIds (Review_update r' st) \<and> uniqueTriples (Review_update r' st)"
proof -
  have i: "map review_id (map (\<lambda>x. if review_id x = review_id r' then r' else x) (reviews st))
           = map review_id (reviews st)"
    using assms by (intro replace_keeps_keys[where r = r]) (auto simp: uniqueIds_def)
  have t: "map (\<lambda>r. (review_customer r, review_product r, review_order r))
             (map (\<lambda>x. if review_id x = review_id r' then r' else x) (reviews st))
           = map (\<lambda>r. (review_customer r, review_product r, review_order r)) (reviews st)"
    using assms by (intro replace_keeps_keys[where r = r]) (auto simp: uniqueIds_def)
  from assms(1,2) show ?thesis
    unfolding uniqueIds_def uniqueTriples_def Review_update_def Review_post_hook_frame
    by (simp add: i t del: map_map)
qed

lemma find_in_set: "find P xs = Some x \<Longrightarrow> x \<in> set xs \<and> P x"
  by (induction xs) (auto split: if_splits)

lemma post_reviews_indexes:
  assumes "uniqueIds st" and "uniqueTriples st"
  shows "uniqueIds (snd (post_reviews e user body st))
       \<and> uniqueTriples (snd (post_reviews e user body st))"
proof (cases "post_reviews e user body st")
  case (Pair res st')
  show ?thesis
  proof (cases res)
    case (Inl err)
    with Pair have "st' = st"
      by (auto simp: post_reviews_def createReview_def Let_def
               split: if_splits option.splits sum.splits)
    with Pair assms show ?thesis by simp
  next
    case (Inr r)
    from post_reviews_Inr[OF Pair[unfolded Inr]] have
      s: "st' = Review_post_hook r (st\<lparr>reviews := reviews st @ [r]\<rparr>)"
      and c: "review_customer r = user_id user" "review_product r = body_productId body"
             "review_order r = body_orderId body"
      and i: "\<not> list_ex (\<lambda>x. review_id x = review_id r) (reviews st)"
      and t: "\<not> list_ex (sameTriple (user_id user) (body_productId body) (body_orderId body))
                 (reviews st)"
      by blast+
    from i have "review_id r \<notin> set (map review_id (reviews st))"
      by (auto simp: list_ex_iff)
    moreover from t c have "(review_customer r, review_product r, review_order r)
        \<notin> set (map (\<lambda>r. (review_customer r, review_product r, review_order r)) (reviews st))"
      by (auto simp: list_ex_iff sameTriple_def)
    ultimately show ?thesis
      using assms Pair s
      by (simp add: uniqueIds_def uniqueTriples_def Review_post_hook_frame)
  qed
qed

lemma review_handlers_indexes:
  assumes "uniqueIds st" and "uniqueTriples st"
  shows "uniqueIds (snd (put_review e user rid updates st))
       \<and> uniqueTriples (snd (put_review e user rid updates st))"
    and "uniqueIds (snd (delete_review e user rid st))
       \<and> uniqueTriples (snd (delete_review e user rid st))"
    and "uniqueIds (snd (post_review_helpful e user rid h st))
       \<and> uniqueTriples (snd (post_review_helpful e user rid h st))"
    and "uniqueIds (snd (post_review_respond e user rid c st))
       \<and> uniqueTriples (snd (post_review_respond e user rid c st))"
proof -
  show "uniqueIds (snd (put_review e user rid updates st))
       \<and> uniqueTriples (snd (put_review e user rid updates st))"
  proof (cases "findOwnReview st rid (user_id user)")
    case None
    with assms show ?thesis by (simp add: put_review_def)
  next
    case (Some r)
    then have "r \<in> set (reviews st)" by (auto simp: findOwnReview_def dest: find_in_set)
    with assms Some show ?thesis
      by (auto simp: put_review_def Let_def intro!: Review_update_indexes[where r = r, THEN conjunct1]
            Review_update_indexes[where r = r, THEN conjunct2] split: option.splits)
  qed
  show "uniqueIds (snd (delete_review e user rid st))
       \<and> uniqueTriples (snd (delete_review e user rid st))"
    using assms
    by (auto simp: delete_review_def Review_remove_def Review_post_hook_frame uniqueIds_def
          uniqueTriples_def distinct_map_filter split: option.splits)
  show "uniqueIds (snd (post_review_helpful e user rid h st))
       \<and> uniqueTriples (snd (post_review_helpful e user rid h st))"
  proof (cases "findReviewById st rid")
    case None
    with assms show ?thesis by (simp add: post_review_helpful_def)
  next
    case (Some r)
    then have "r \<in> set (reviews st)" by (auto simp: findReviewById_def dest: find_in_set)
    with assms Some show ?thesis
      by (auto simp: post_review_helpful_def addVote_def Let_def
            intro!: Review_update_indexes[where r = r, THEN conjunct1]
            Review_update_indexes[where r = r, THEN conjunct2] split: option.splits)
  qed
  show "uniqueIds (snd (post_review_respond e user rid c st))
       \<and> uniqueTriples (snd (post_review_respond e user rid c st))"
  proof (cases "findReviewById st rid")
    case None
    with assms show ?thesis by (simp add: post_review_respond_def)
  next
    case (Some r)
    then have "r \<in> set (reviews st)" by (auto simp: findReviewById_def dest: find_in_set)
    with assms Some show ?thesis
      by (auto simp: post_review_respond_def Let_def
            intro!: Review_update_indexes[where r = r, THEN conjunct1]
            Review_update_indexes[where r = r, THEN conjunct2] split: option.splits)
  qed
qed

lemma handle_indexes:
  assumes "uniqueIds st" and "uniqueTriples st"
  shows "uniqueIds (handle e user req st) \<and> uniqueTriples (handle e user req st)"
proof (cases req)
  case (PostReview body)
  with post_reviews_indexes[OF assms] show ?thesis by simp
next
  case (PutReview rid updates)
  with review_handlers_indexes(1)[OF assms] show ?thesis by simp
next
  case (DeleteReview rid)
  with review_handlers_indexes(2)[OF assms] show ?thesis by simp
next
  case (PostReviewHelpful rid h)
  with review_handlers_indexes(3)[OF assms] show ?thesis by simp
next
  case (PostReviewRespond rid c)
  with review_handlers_indexes(4)[OF assms] show ?thesis by simp
qed (use assms in \<open>simp_all add: uniqueIds_def uniqueTriples_def order_handlers_reviews\<close>)

lemma run_indexes:
  "uniqueIds st \<Longrightarrow> uniqueTriples st \<Longrightarrow>
   uniqueIds (run reqs st) \<and> uniqueTriples (run reqs st)"
proof (induction reqs arbitrary: st)
  case Nil
  then show ?case by simp
next
  case (Cons a reqs)
  obtain e user req where a: "a = (e, user, req)" by (cases a)
  from handle_indexes[OF Cons.prems, of e user req] Cons.IH a show ?case by simp
qed

lemma findDeliveredOrder_frame:
  "orders st' = orders st \<Longrightarrow> findDeliveredOrder st' = findDeliveredOrder st"
  by (intro ext) (simp add: findDeliveredOrder_def)

subsection \<open>Evaluation of the example\<close>

lemmas example_defs = bowl_def poster_def vase_def shop_def buyer_def seller_def admin_def
  env1_def env2_def env3_def body1_def order1_def shop1_def shop2_def shop3_def
  shop_partial_def body_missing_def body_vase_def shop_delivered_def
  earlier_review_def shop_reviewed_def review_body_def env4_def env5_def shop_reviewed1_def
  one_star_def shop_reviewed2_def shop_reviewed3_def
  shop_single_def shop_single1_def reader_def

lemma toString_numeral:
  "toString (numeral k) =
     (if numeral k < (10::nat) then [digit (numeral k)]
      else toString (numeral k div 10) @ [digit (numeral k mod 10)])"
  by (rule toString.simps)

lemma toString_digit: "n < 10 \<Longrightarrow> toString n = [digit n]"
  by (simp add: toString.simps)

lemmas review_defs = post_reviews_def validateReviewCreation_def createReview_def
  findDeliveredOrder_def sameTriple_def validateRating_def axis_ok_def Review_insert_def
  Review_post_hook_def updateProductRating_def updateArtisanRating_def ratingOf_def
  Math_round_def Review_update_def Review_remove_def put_review_def delete_review_def
  findOwnReview_def findReviewById_def post_review_helpful_def canVote_def addVote_def
  post_review_respond_def

lemmas handler_defs = post_orders_def validateOrderCreation_def createOrder_def
  isAvailable_def discountedPrice_def Product_save_def Order_save_def Order_validate_def Let_def
  generateOrderNumber_def addStatusToTimeline_def clearCart_def
  slice_last6_def padStart3_def digit_def toString_numeral toString_digit
  put_order_status_def post_order_cancel_def canBeCancelled_def

lemma example_refused: "post_orders env1 buyer body1 shop = (Inl InternalError, shop_partial)"
  by (simp add: example_defs handler_defs)

lemma example_stock:
  "map_option inventory_quantity (products shop 11) = Some 10"
  "map_option stats_totalSold (products shop 11) = Some 0"
  "map_option inventory_quantity (products shop_partial 11) = Some 7"
  "map_option stats_totalSold (products shop_partial 11) = Some 3"
  "orders shop_partial = Map.empty"
  by (simp_all add: example_defs)

lemma example_no_order:
  "post_order_cancel env3 buyer 100 None shop_partial = (Inl NotFound, shop_partial)"
  by (simp add: example_defs handler_defs)

lemma example_cancelled:
  "\<exists>oc. post_order_cancel env3 buyer 100 None shop2 = (Inr oc, shop3)"
  by (simp add: example_defs handler_defs fun_upd_twist)

lemma example_partial:
  "createOrder_loop env1 [\<lparr>product = 11, quantity = 3\<rparr>] 0 [] shop
     = (Inr (540, [\<lparr>item_product = 11, item_artisan = 20, item_quantity = 3,
                    item_price = 180\<rparr>]), shop_partial)"
  by (simp add: example_defs handler_defs)

lemma example_delivered:
  "\<exists>ord. orders shop_delivered 100 = Some ord \<and> status ord = ''delivered''
      \<and> customer ord = 7 \<and> actualDelivery ord = Some 1700000600000
      \<and> items ord = items order1"
  by (simp add: example_defs handler_defs)

lemma example_cancel_refused:
  "post_order_cancel env3 buyer 100 None shop_delivered = (Inl InvalidTransition, shop_delivered)"
  by (simp add: example_defs handler_defs)

lemma example_review_created:
  "\<exists>r. post_reviews env4 buyer review_body shop_reviewed = (Inr r, shop_reviewed1)
      \<and> review_product r = 11 \<and> review_artisan r = 20"
  by (simp add: example_defs handler_defs review_defs)








lemma example_reviewed_indexes:
  "uniqueIds shop_reviewed \<and> uniqueTriples shop_reviewed"
  by (simp add: shop_reviewed_def earlier_review_def uniqueIds_def uniqueTriples_def)

lemma example_review_body_valid: "validateReviewCreation review_body"
  by (simp add: validateReviewCreation_def review_body_def)

lemma example_review_exists:
  "list_ex (sameTriple (user_id buyer) (body_productId review_body) (body_orderId review_body))
     (reviews shop_reviewed1)"
  by (simp add: example_defs handler_defs review_defs)

lemma example_review_found:
  "\<exists>r. findReviewById shop_reviewed 202 = Some r \<and> votedBy r = [] \<and> helpfulVotes r = 0"
  by (simp add: shop_reviewed_def earlier_review_def findReviewById_def)

section \<open>The claims\<close>

subsection \<open>C1: the pricing summary\<close>

text \<open>
  C1, on the code. The claim is about the orders that \<^verbatim>\<open>POST /api/orders\<close> persists. The
  handler computes the subtotal, the tax of 18% and the total, and builds the order without
  an order number; the save validates the new document before the pre-save hook that would
  generate the number, and refuses it. So the request never succeeds, whatever the
  environment, the user, the body and the store: the answer is an error, the order
  collection and the carts are as before, and no persisted order carries the pricing summary.
  On the example store the valid request for three bowls and two posters gets the internal
  error of the handler, and the store that is left holds the lowered stock of the bowl.
\<close>

theorem order_creation_refused:
  "isl (fst (post_orders e user body st))
   \<and> orders (snd (post_orders e user body st)) = orders st
   \<and> carts (snd (post_orders e user body st)) = carts st
   \<and> validateOrderCreation body1
   \<and> post_orders env1 buyer body1 shop = (Inl InternalError, shop_partial)"
proof -
  have "validateOrderCreation body1"
    by (simp add: body1_def validateOrderCreation_def)
  with post_orders_refused[of e user body st] example_refused show ?thesis by simp
qed

subsection \<open>C2: creation and cancellation on tracked inventory\<close>

text \<open>
  C2, on the code. The creation lowers the stock of a tracked product in the loop over the
  items, before the order is saved, and the save of the new order is refused (see C1). On the
  example store the request for three bowls and two posters fails with the internal error;
  the bowl goes from 10 pieces in stock and 0 sold to 7 in stock and 3 sold; the order
  collection stays empty; and the cancellation of the order, under the id it would have had,
  finds nothing and leaves the store as it is. The stock is not restored.
\<close>

theorem order_inventory_not_restored:
  "post_orders env1 buyer body1 shop = (Inl InternalError, shop_partial)
   \<and> map_option inventory_quantity (products shop 11) = Some 10
   \<and> map_option stats_totalSold (products shop 11) = Some 0
   \<and> map_option inventory_quantity (products shop_partial 11) = Some 7
   \<and> map_option stats_totalSold (products shop_partial 11) = Some 3
   \<and> orders shop_partial = Map.empty
   \<and> newId env1 = 100
   \<and> post_order_cancel env3 buyer 100 None shop_partial = (Inl NotFound, shop_partial)"
  using example_refused example_stock example_no_order by (simp add: env1_def)

subsection \<open>C3: order creation is not atomic\<close>

text \<open>
  C3. When the items before a requested item pass the loop and that item then fails its
  check (the product is missing or inactive: \<open>ItemUnavailable\<close>; it is active but not
  available in the requested quantity: \<open>InsufficientStock\<close>), the request fails with that
  error, the store it leaves behind is the one the earlier items produced: no order is
  persisted, the carts are untouched, and every tracked product keeps the decrement that the
  earlier items applied to it. In particular a valid order for a single active tracked
  product whose stock is 0 fails with \<open>InsufficientStock\<close> and leaves the store as it was.
\<close>

theorem order_creation_not_atomic:
  "(createOrder_loop e pre 0 [] st = (Inr (sub, ois), st')
      \<and> validateOrderCreation \<lparr>body_items = pre @ bad # rest, body_payment_method = m\<rparr>
      \<and> (case products st' (product bad) of
            None \<Rightarrow> True
          | Some p \<Rightarrow> \<not> isActive p \<or> \<not> isAvailable p (quantity bad))
    \<longrightarrow> post_orders e user \<lparr>body_items = pre @ bad # rest, body_payment_method = m\<rparr> st
          = (Inl (case products st' (product bad) of
                    None \<Rightarrow> ItemUnavailable
                  | Some p \<Rightarrow> if \<not> isActive p then ItemUnavailable else InsufficientStock),
             st')
        \<and> orders st' = orders st \<and> carts st' = carts st
        \<and> (\<forall>pid p. products st pid = Some p \<and> inventory_trackInventory p
              \<longrightarrow> (\<exists>p1. products st' pid = Some p1
                     \<and> inventory_quantity p1 = inventory_quantity p
                          - (\<Sum>r\<leftarrow>filter (\<lambda>r. product r = pid) pre. quantity r)
                     \<and> stats_totalSold p1 = stats_totalSold p
                          + (\<Sum>r\<leftarrow>filter (\<lambda>r. product r = pid) pre. quantity r))))
   \<and> (products st pid = Some p \<and> isActive p \<and> inventory_trackInventory p
        \<and> inventory_quantity p = 0
        \<and> validateOrderCreation
             \<lparr>body_items = [\<lparr>product = pid, quantity = q\<rparr>], body_payment_method = m\<rparr>
      \<longrightarrow> post_orders e user
             \<lparr>body_items = [\<lparr>product = pid, quantity = q\<rparr>], body_payment_method = m\<rparr> st
           = (Inl InsufficientStock, st))"
proof (intro conjI impI)
  assume a: "createOrder_loop e pre 0 [] st = (Inr (sub, ois), st')
      \<and> validateOrderCreation \<lparr>body_items = pre @ bad # rest, body_payment_method = m\<rparr>
      \<and> (case products st' (product bad) of
            None \<Rightarrow> True
          | Some p \<Rightarrow> \<not> isActive p \<or> \<not> isAvailable p (quantity bad))"
  then have l: "createOrder_loop e pre 0 [] st = (Inr (sub, ois), st')" by blast
  from a have f: "createOrder_loop e (bad # rest) sub ois st' =
           (Inl (case products st' (product bad) of
                   None \<Rightarrow> ItemUnavailable
                 | Some p \<Rightarrow> if \<not> isActive p then ItemUnavailable else InsufficientStock), st')"
    by (intro createOrder_loop_fails) blast
  from a l f show "post_orders e user \<lparr>body_items = pre @ bad # rest, body_payment_method = m\<rparr> st
          = (Inl (case products st' (product bad) of
                    None \<Rightarrow> ItemUnavailable
                  | Some p \<Rightarrow> if \<not> isActive p then ItemUnavailable else InsufficientStock),
             st')"
    by (simp add: post_orders_def createOrder_def createOrder_loop_append)
  from createOrder_loop_frame[OF l] show "orders st' = orders st" and "carts st' = carts st"
    by blast+
  show "\<forall>pid p. products st pid = Some p \<and> inventory_trackInventory p
              \<longrightarrow> (\<exists>p1. products st' pid = Some p1
                     \<and> inventory_quantity p1 = inventory_quantity p
                          - (\<Sum>r\<leftarrow>filter (\<lambda>r. product r = pid) pre. quantity r)
                     \<and> stats_totalSold p1 = stats_totalSold p
                          + (\<Sum>r\<leftarrow>filter (\<lambda>r. product r = pid) pre. quantity r))"
    using createOrder_loop_tracked[OF l] by blast
next
  assume "products st pid = Some p \<and> isActive p \<and> inventory_trackInventory p
        \<and> inventory_quantity p = 0
        \<and> validateOrderCreation
             \<lparr>body_items = [\<lparr>product = pid, quantity = q\<rparr>], body_payment_method = m\<rparr>"
  then show "post_orders e user
             \<lparr>body_items = [\<lparr>product = pid, quantity = q\<rparr>], body_payment_method = m\<rparr> st
           = (Inl InsufficientStock, st)"
    by (auto simp: post_orders_def createOrder_def validateOrderCreation_def isAvailable_def)
qed

theorem order_creation_not_atomic_witness:
  "post_orders env1 buyer body_missing shop = (Inl ItemUnavailable, shop_partial)
   \<and> orders shop_partial = orders shop \<and> carts shop_partial = carts shop
   \<and> (\<exists>p1. products shop_partial 11 = Some p1
          \<and> inventory_quantity p1 = 10 - 3 \<and> stats_totalSold p1 = 0 + 3)
   \<and> post_orders env1 buyer body_vase shop = (Inl InsufficientStock, shop)"
proof -
  note t = order_creation_not_atomic[where e = env1 and st = shop and st' = shop_partial
      and pre = "[\<lparr>product = 11, quantity = 3\<rparr>]" and bad = "\<lparr>product = 13, quantity = 1\<rparr>"
      and rest = "[\<lparr>product = 12, quantity = 2\<rparr>]" and m = "''card''" and user = buyer
      and sub = 540
      and ois = "[\<lparr>item_product = 11, item_artisan = 20, item_quantity = 3, item_price = 180\<rparr>]"
      and pid = 14 and p = vase and q = 1]
  have v: "validateOrderCreation \<lparr>body_items = [\<lparr>product = 11, quantity = 3\<rparr>]
               @ \<lparr>product = 13, quantity = 1\<rparr> # [\<lparr>product = 12, quantity = 2\<rparr>],
             body_payment_method = ''card''\<rparr>"
    by (simp add: validateOrderCreation_def)
  have g: "products shop_partial (product \<lparr>product = 13, quantity = 1\<rparr>) = None"
    by (simp add: shop_partial_def shop_def)
  from t[THEN conjunct1] example_partial v g
  have first: "post_orders env1 buyer body_missing shop = (Inl ItemUnavailable, shop_partial)
     \<and> orders shop_partial = orders shop \<and> carts shop_partial = carts shop
     \<and> (\<forall>pid p. products shop pid = Some p \<and> inventory_trackInventory p
              \<longrightarrow> (\<exists>p1. products shop_partial pid = Some p1
                     \<and> inventory_quantity p1 = inventory_quantity p
                          - (\<Sum>r\<leftarrow>filter (\<lambda>r. product r = pid) [\<lparr>product = 11, quantity = 3\<rparr>]. quantity r)
                     \<and> stats_totalSold p1 = stats_totalSold p
                          + (\<Sum>r\<leftarrow>filter (\<lambda>r. product r = pid) [\<lparr>product = 11, quantity = 3\<rparr>]. quantity r)))"
    by (simp add: body_missing_def)
  then have "products shop 11 = Some bowl \<and> inventory_trackInventory bowl
              \<longrightarrow> (\<exists>p1. products shop_partial 11 = Some p1
                     \<and> inventory_quantity p1 = inventory_quantity bowl
                          - (\<Sum>r\<leftarrow>filter (\<lambda>r. product r = 11) [\<lparr>product = 11, quantity = 3\<rparr>]. quantity r)
                     \<and> stats_totalSold p1 = stats_totalSold bowl
                          + (\<Sum>r\<leftarrow>filter (\<lambda>r. product r = 11) [\<lparr>product = 11, quantity = 3\<rparr>]. quantity r))"
    by blast
  then have stock: "\<exists>p1. products shop_partial 11 = Some p1
          \<and> inventory_quantity p1 = 10 - 3 \<and> stats_totalSold p1 = 0 + 3"
    by (simp add: shop_def bowl_def)
  have "products shop 14 = Some vase \<and> isActive vase \<and> inventory_trackInventory vase
        \<and> inventory_quantity vase = 0
        \<and> validateOrderCreation
             \<lparr>body_items = [\<lparr>product = 14, quantity = 1\<rparr>], body_payment_method = ''card''\<rparr>"
    by (simp add: shop_def vase_def validateOrderCreation_def)
  with t[THEN conjunct2] have "post_orders env1 buyer body_vase shop = (Inl InsufficientStock, shop)"
    by (simp add: body_vase_def)
  with first stock show ?thesis by blast
qed

subsection \<open>C4: the cancellation guard\<close>

text \<open>
  C4. \<^verbatim>\<open>canBeCancelled\<close> holds exactly for the statuses pending and confirmed. A
  cancellation by the buyer or an administrator of an order in any other status fails with
  \<open>InvalidTransition\<close> and leaves the whole store (the order and every product) unchanged.
  A cancellation that succeeds stores the order with the status cancelled and a cancellation
  record with the reason, the actor, the time and the refund status pending.
\<close>

theorem cancel_guard:
  "(canBeCancelled ord \<longleftrightarrow> status ord = ''pending'' \<or> status ord = ''confirmed'')
   \<and> (orders st oid = Some ord
        \<and> (customer ord = user_id user \<or> role user = ''admin'')
        \<and> status ord \<noteq> ''pending'' \<and> status ord \<noteq> ''confirmed''
      \<longrightarrow> post_order_cancel e user oid why st = (Inl InvalidTransition, st))
   \<and> (post_order_cancel e user oid why st = (Inr oc, st')
      \<longrightarrow> status oc = ''cancelled'' \<and> orders st' oid = Some oc
        \<and> cancellation oc = Some \<lparr>reason = why, cancelledBy = user_id user,
                                    cancelledAt = now e, refundStatus = ''pending''\<rparr>)"
proof (intro conjI impI)
  show "canBeCancelled ord \<longleftrightarrow> status ord = ''pending'' \<or> status ord = ''confirmed''"
    by (simp add: canBeCancelled_def)
next
  assume "orders st oid = Some ord
        \<and> (customer ord = user_id user \<or> role user = ''admin'')
        \<and> status ord \<noteq> ''pending'' \<and> status ord \<noteq> ''confirmed''"
  then show "post_order_cancel e user oid why st = (Inl InvalidTransition, st)"
    by (auto simp: post_order_cancel_def canBeCancelled_def)
next
  assume c: "post_order_cancel e user oid why st = (Inr oc, st')"
  from post_order_cancel_Inr[OF c]
  show "status oc = ''cancelled''" and "orders st' oid = Some oc"
    and "cancellation oc = Some \<lparr>reason = why, cancelledBy = user_id user,
                                    cancelledAt = now e, refundStatus = ''pending''\<rparr>"
    by (auto simp: hooks_frame)
qed

theorem cancel_guard_witness:
  "(\<exists>ord. orders shop_delivered 100 = Some ord \<and> status ord = ''delivered''
       \<and> customer ord = user_id buyer \<and> \<not> canBeCancelled ord)
   \<and> post_order_cancel env3 buyer 100 None shop_delivered
        = (Inl InvalidTransition, shop_delivered)
   \<and> (\<exists>oc. post_order_cancel env3 buyer 100 None shop2 = (Inr oc, shop3)
         \<and> status oc = ''cancelled'' \<and> orders shop3 100 = Some oc
         \<and> cancellation oc = Some \<lparr>reason = None, cancelledBy = 7,
                                     cancelledAt = 1700001200000, refundStatus = ''pending''\<rparr>)"
proof -
  from example_delivered obtain ord where
    ord: "orders shop_delivered 100 = Some ord" "status ord = ''delivered''" "customer ord = 7"
    by blast
  note g = cancel_guard[where ord = ord and st = shop_delivered and oid = 100 and user = buyer
      and e = env3 and why = None]
  from g ord have n: "\<not> canBeCancelled ord" by simp
  from g ord have r: "post_order_cancel env3 buyer 100 None shop_delivered
        = (Inl InvalidTransition, shop_delivered)"
    by (simp add: buyer_def)
  from example_cancelled obtain oc where
    oc: "post_order_cancel env3 buyer 100 None shop2 = (Inr oc, shop3)" by blast
  from cancel_guard[where st = shop2 and oid = 100 and user = buyer and e = env3
      and why = None and oc = oc and st' = shop3] oc
  have "status oc = ''cancelled'' \<and> orders shop3 100 = Some oc
         \<and> cancellation oc = Some \<lparr>reason = None, cancelledBy = 7,
                                     cancelledAt = 1700001200000, refundStatus = ''pending''\<rparr>"
    by (simp add: buyer_def env3_def)
  with ord n r oc show ?thesis by (auto simp: buyer_def)
qed

subsection \<open>C5: ratings after a review is created, updated or deleted\<close>



subsection \<open>C6: status updates and the timeline\<close>

text \<open>
  C6, as the code has it. A status update with a valid status on an existing order, by a
  seller of one of its items or an administrator, succeeds and stores the order with the new
  status. The handler appends the entry \<open>{status, timestamp, note, actor}\<close> exactly when the
  request carries a non-empty note, and the pre-save hook of the order schema appends one
  more entry, with the note "Order status changed to ..." and no actor, exactly when the new
  status differs from the stored one. So without a note the timeline still grows by the
  hook's entry whenever the status changes, and it stays as it is only when neither a note
  is given nor the status changes. Independently of the note, the status delivered stamps
  the actual-delivery time, and any other status leaves it as it was.
\<close>

theorem update_status_timeline:
  assumes "new_status \<in> set [''confirmed'', ''processing'', ''shipped'', ''delivered'', ''cancelled'']"
      and "orders st oid = Some stored"
      and "list_ex (\<lambda>item. item_artisan item = user_id user) (items stored) \<or> role user = ''admin''"
  shows "\<exists>ord. put_order_status e user oid new_status note st
                 = (Inr ord, st\<lparr>orders := (orders st)(oid \<mapsto> ord)\<rparr>)
           \<and> status ord = new_status
           \<and> timeline ord = timeline stored
               @ (case note of
                    None \<Rightarrow> []
                  | Some s \<Rightarrow>
                      if s \<noteq> []
                      then [\<lparr>entry_status = new_status, entry_timestamp = now e,
                              entry_note = s, entry_updatedBy = Some (user_id user)\<rparr>]
                      else [])
               @ (if new_status \<noteq> status stored
                  then [\<lparr>entry_status = new_status, entry_timestamp = now e,
                          entry_note = ''Order status changed to '' @ new_status,
                          entry_updatedBy = None\<rparr>]
                  else [])
           \<and> actualDelivery ord = (if new_status = ''delivered'' then Some (now e)
                                    else actualDelivery stored)"
  using assms
  unfolding put_order_status_def Let_def Order_save_loaded
  by (auto simp: addStatusToTimeline_def generateOrderNumber_def split: option.splits)

theorem update_status_timeline_witness:
  "(\<exists>ord. put_order_status env2 seller 100 ''delivered'' (Some ''left at the door'') shop1
            = (Inr ord, shop1\<lparr>orders := (orders shop1)(100 \<mapsto> ord)\<rparr>)
        \<and> status ord = ''delivered''
        \<and> timeline ord =
            [\<lparr>entry_status = ''delivered'', entry_timestamp = 1700000600000,
              entry_note = ''left at the door'', entry_updatedBy = Some 20\<rparr>,
             \<lparr>entry_status = ''delivered'', entry_timestamp = 1700000600000,
              entry_note = ''Order status changed to delivered'', entry_updatedBy = None\<rparr>]
        \<and> actualDelivery ord = Some 1700000600000)
   \<and> (\<exists>ord. put_order_status env3 admin 100 ''pending'' None shop1 = (Inl InvalidStatus, shop1)
        \<and> put_order_status env3 admin 100 ''cancelled'' (Some []) shop1
            = (Inr ord, shop1\<lparr>orders := (orders shop1)(100 \<mapsto> ord)\<rparr>)
        \<and> length (timeline ord) = 1 \<and> actualDelivery ord = None)"
proof -
  have o: "orders shop1 100 = Some order1" by (simp add: shop1_def)
  have s: "list_ex (\<lambda>item. item_artisan item = user_id seller) (items order1)
            \<or> role seller = ''admin''"
    by (simp add: order1_def seller_def)
  have v: "''delivered'' \<in> set [''confirmed'', ''processing'', ''shipped'', ''delivered'', ''cancelled'']"
    by simp
  from update_status_timeline[OF v o s, of env2 "Some ''left at the door''"]
  have first: "\<exists>ord. put_order_status env2 seller 100 ''delivered'' (Some ''left at the door'') shop1
            = (Inr ord, shop1\<lparr>orders := (orders shop1)(100 \<mapsto> ord)\<rparr>)
        \<and> status ord = ''delivered''
        \<and> timeline ord =
            [\<lparr>entry_status = ''delivered'', entry_timestamp = 1700000600000,
              entry_note = ''left at the door'', entry_updatedBy = Some 20\<rparr>,
             \<lparr>entry_status = ''delivered'', entry_timestamp = 1700000600000,
              entry_note = ''Order status changed to delivered'', entry_updatedBy = None\<rparr>]
        \<and> actualDelivery ord = Some 1700000600000"
    by (simp add: order1_def seller_def env2_def)
  have a: "list_ex (\<lambda>item. item_artisan item = user_id admin) (items order1)
            \<or> role admin = ''admin''"
    by (simp add: admin_def)
  have w: "''cancelled'' \<in> set [''confirmed'', ''processing'', ''shipped'', ''delivered'', ''cancelled'']"
    by simp
  have i: "put_order_status env3 admin 100 ''pending'' None shop1 = (Inl InvalidStatus, shop1)"
    by (simp add: put_order_status_def)
  from update_status_timeline[OF w o a, of env3 "Some []"] i
  have second: "\<exists>ord. put_order_status env3 admin 100 ''pending'' None shop1 = (Inl InvalidStatus, shop1)
        \<and> put_order_status env3 admin 100 ''cancelled'' (Some []) shop1
            = (Inr ord, shop1\<lparr>orders := (orders shop1)(100 \<mapsto> ord)\<rparr>)
        \<and> length (timeline ord) = 1 \<and> actualDelivery ord = None"
    by (auto simp: order1_def)
  from first second show ?thesis by blast
qed

text \<open>
  C6 as the specification states it (an entry if and only if a note is supplied) fails on
  the example: the seller confirms the pending order without a note and the timeline, empty
  before, has the hook's entry afterwards; and a request that supplies the empty note and
  does not change the status appends nothing.
\<close>

theorem update_status_timeline_counterexample:
  "map_option timeline (orders shop1 100) = Some []
   \<and> fst (put_order_status env2 seller 100 ''confirmed'' None shop1)
       = Inr (order1\<lparr>status := ''confirmed'',
                timeline := [\<lparr>entry_status = ''confirmed'', entry_timestamp = 1700000600000,
                               entry_note = ''Order status changed to confirmed'',
                               entry_updatedBy = None\<rparr>]\<rparr>)
   \<and> map_option timeline (orders shop2 100)
       = Some [\<lparr>entry_status = ''confirmed'', entry_timestamp = 1700000600000,
                 entry_note = ''Order status changed to confirmed'',
                 entry_updatedBy = None\<rparr>]
   \<and> map_option timeline
         (orders (snd (put_order_status env3 seller 100 ''confirmed'' (Some []) shop2)) 100)
       = map_option timeline (orders shop2 100)"
  by (simp add: example_defs handler_defs)

subsection \<open>C7: the return window\<close>

text \<open>
  C7. \<^verbatim>\<open>canBeReturned\<close> holds exactly when the order is delivered and at most seven days
  (604800000 ms) have passed since the actual delivery or, when that is absent, since the
  creation of the order. At exactly seven days it holds for a delivered order; at seven days
  and one second it does not hold.
\<close>

theorem return_window:
  "(canBeReturned t ord \<longleftrightarrow>
      status ord = ''delivered''
      \<and> t - (case actualDelivery ord of Some d \<Rightarrow> d | None \<Rightarrow> createdAt ord)
          \<le> 7 * 24 * 60 * 60 * 1000)
   \<and> canBeReturned ((case actualDelivery ord of Some d \<Rightarrow> d | None \<Rightarrow> createdAt ord)
                      + 7 * 24 * 60 * 60 * 1000) ord = (status ord = ''delivered'')
   \<and> \<not> canBeReturned ((case actualDelivery ord of Some d \<Rightarrow> d | None \<Rightarrow> createdAt ord)
                        + 7 * 24 * 60 * 60 * 1000 + 1000) ord"
proof -
  have d: "(of_int x :: rat) / (1000 * 60 * 60 * 24) \<le> 7 \<longleftrightarrow> x \<le> 7 * 24 * 60 * 60 * 1000" for x :: int
  proof -
    have "(of_int x :: rat) / 86400000 \<le> 7 \<longleftrightarrow> (of_int x :: rat) \<le> of_int 604800000"
      by (simp add: field_simps)
    also have "\<dots> \<longleftrightarrow> x \<le> 604800000" by (simp only: of_int_le_iff)
    finally show ?thesis by simp
  qed
  show ?thesis
    unfolding canBeReturned_def Let_def d by auto
qed

subsection \<open>C8: one review per buyer, product and order\<close>

text \<open>
  C8. When the review collection already holds a review of the buyer for the product and the
  order, \<^verbatim>\<open>POST /api/reviews\<close> for that triple fails and leaves the store unchanged; the
  error is \<open>DuplicateReview\<close> unless the body is invalid or the order is no longer eligible,
  which are reported first. In particular, right after a review was created, a second valid
  attempt of the same buyer for the same product and order fails with \<open>DuplicateReview\<close> and
  creates no review. A store whose review ids are unique and that holds at most one review
  per (buyer, product, order) keeps both properties under every sequence of requests.
\<close>

theorem one_review_per_triple:
  "(list_ex (sameTriple (user_id user) (body_productId body) (body_orderId body)) (reviews st)
      \<longrightarrow> post_reviews e user body st = (Inl ValidationFailed, st)
        \<or> post_reviews e user body st = (Inl NotEligible, st)
        \<or> post_reviews e user body st = (Inl DuplicateReview, st))
   \<and> (post_reviews e user body st = (Inr r, st')
        \<and> validateReviewCreation again
        \<and> body_productId again = body_productId body
        \<and> body_orderId again = body_orderId body
      \<longrightarrow> post_reviews e' user again st' = (Inl DuplicateReview, st'))
   \<and> (uniqueIds st \<and> uniqueTriples st
      \<longrightarrow> uniqueIds (run reqs st) \<and> uniqueTriples (run reqs st))"
proof (intro conjI impI)
  assume "list_ex (sameTriple (user_id user) (body_productId body) (body_orderId body)) (reviews st)"
  then have dup: "list_ex (sameTriple (user_id user) (body_productId body) (body_orderId body))
                    (reviews st)" .
  show "post_reviews e user body st = (Inl ValidationFailed, st)
        \<or> post_reviews e user body st = (Inl NotEligible, st)
        \<or> post_reviews e user body st = (Inl DuplicateReview, st)"
  proof (cases "validateReviewCreation body")
    case False
    then show ?thesis by (simp add: post_reviews_def)
  next
    case True
    show ?thesis
    proof (cases "findDeliveredOrder st (body_orderId body) (user_id user) (body_productId body)")
      case None
      with True show ?thesis by (simp add: post_reviews_def createReview_def)
    next
      case (Some ord)
      with True dup show ?thesis by (simp add: post_reviews_def createReview_def)
    qed
  qed
next
  assume a: "post_reviews e user body st = (Inr r, st')
        \<and> validateReviewCreation again
        \<and> body_productId again = body_productId body
        \<and> body_orderId again = body_orderId body"
  then have p: "post_reviews e user body st = (Inr r, st')" by blast
  from post_reviews_Inr[OF p] have
    s: "st' = Review_post_hook r (st\<lparr>reviews := reviews st @ [r]\<rparr>)"
    and c: "review_customer r = user_id user" "review_product r = body_productId body"
           "review_order r = body_orderId body"
    and f: "findDeliveredOrder st (body_orderId body) (user_id user) (body_productId body) \<noteq> None"
    by blast+
  from s have "orders st' = orders st" by (simp add: Review_post_hook_frame)
  from findDeliveredOrder_frame[OF this] f
  have f': "findDeliveredOrder st' (body_orderId body) (user_id user) (body_productId body)
                     \<noteq> None"
    by simp
  from s c have "list_ex (sameTriple (user_id user) (body_productId body) (body_orderId body))
                   (reviews st')"
    by (simp add: Review_post_hook_frame list_ex_iff sameTriple_def)
  moreover from f' obtain ord where
    "findDeliveredOrder st' (body_orderId body) (user_id user) (body_productId body) = Some ord"
    by blast
  moreover from a have "validateReviewCreation again"
    "body_productId again = body_productId body" "body_orderId again = body_orderId body"
    by blast+
  ultimately show "post_reviews e' user again st' = (Inl DuplicateReview, st')"
    by (simp add: post_reviews_def createReview_def)
next
  assume "uniqueIds st \<and> uniqueTriples st"
  then show "uniqueIds (run reqs st)" and "uniqueTriples (run reqs st)"
    using run_indexes by blast+
qed

theorem one_review_per_triple_witness:
  "(\<exists>r. post_reviews env4 buyer review_body shop_reviewed = (Inr r, shop_reviewed1))
   \<and> list_ex (sameTriple (user_id buyer) (body_productId review_body) (body_orderId review_body))
        (reviews shop_reviewed1)
   \<and> post_reviews env5 buyer review_body shop_reviewed1 = (Inl DuplicateReview, shop_reviewed1)
   \<and> uniqueIds shop_reviewed \<and> uniqueTriples shop_reviewed
   \<and> uniqueTriples (run [(env4, buyer, PostReview review_body),
                          (env5, buyer, PostReview review_body)] shop_reviewed)"
proof -
  from example_review_created obtain r where
    r: "post_reviews env4 buyer review_body shop_reviewed = (Inr r, shop_reviewed1)" by blast
  note t = one_review_per_triple[where e = env4 and user = buyer and body = review_body
      and st = shop_reviewed and r = r and st' = shop_reviewed1 and again = review_body
      and e' = env5
      and reqs = "[(env4, buyer, PostReview review_body), (env5, buyer, PostReview review_body)]"]
  from t r example_review_body_valid
  have second: "post_reviews env5 buyer review_body shop_reviewed1
                  = (Inl DuplicateReview, shop_reviewed1)"
    by blast
  from t example_reviewed_indexes
  have third: "uniqueTriples (run [(env4, buyer, PostReview review_body),
                          (env5, buyer, PostReview review_body)] shop_reviewed)"
    by blast
  from r example_review_exists second example_reviewed_indexes third show ?thesis by blast
qed

subsection \<open>C9: one helpful vote per user\<close>

text \<open>
  C9. A vote of a user who has already voted on the review fails with \<open>AlreadyVoted\<close>,
  whatever the flag, and leaves the store unchanged. A vote of a user who has not voted yet
  succeeds: the stored review has exactly one more vote record, that of the user with the
  flag (absent counts as true), the tally is one higher exactly when the flag is true, the
  response carries the new tally, and every later vote of that user on the review fails with
  \<open>AlreadyVoted\<close> without changing the store.
\<close>

theorem helpful_vote_once:
  "(findReviewById st rid = Some r
      \<and> list_ex (\<lambda>vote. vote_user vote = user_id user) (votedBy r)
     \<longrightarrow> post_review_helpful e user rid h st = (Inl AlreadyVoted, st))
   \<and> (findReviewById st rid = Some r
      \<and> \<not> list_ex (\<lambda>vote. vote_user vote = user_id user) (votedBy r)
     \<longrightarrow> (\<exists>st' r'. post_review_helpful e user rid h st = (Inr (helpfulVotes r'), st')
            \<and> findReviewById st' rid = Some r'
            \<and> votedBy r' = votedBy r @ [\<lparr>vote_user = user_id user,
                                           vote_helpful = (h \<noteq> Some False),
                                           votedAt = now e\<rparr>]
            \<and> helpfulVotes r' = helpfulVotes r + (if h \<noteq> Some False then 1 else 0)
            \<and> (\<forall>e' h'. post_review_helpful e' user rid h' st' = (Inl AlreadyVoted, st'))))"
proof (intro conjI impI)
  assume "findReviewById st rid = Some r
      \<and> list_ex (\<lambda>vote. vote_user vote = user_id user) (votedBy r)"
  then show "post_review_helpful e user rid h st = (Inl AlreadyVoted, st)"
    by (simp add: post_review_helpful_def canVote_def)
next
  assume a: "findReviewById st rid = Some r
      \<and> \<not> list_ex (\<lambda>vote. vote_user vote = user_id user) (votedBy r)"
  define helpful where "helpful = (h \<noteq> Some False)"
  have hh: "(case h of None \<Rightarrow> True | Some b \<Rightarrow> b) = helpful"
    by (auto simp: helpful_def split: option.splits)
  define r' where "r' = (let this = r\<lparr>votedBy := votedBy r @
                             [\<lparr>vote_user = user_id user, vote_helpful = helpful,
                               votedAt = now e\<rparr>]\<rparr>
                         in if helpful then this\<lparr>helpfulVotes := helpfulVotes this + 1\<rparr>
                            else this)"
  from a have rid: "review_id r = rid"
    by (auto simp: findReviewById_def dest: find_in_set)
  have rid': "review_id r' = rid" using rid by (simp add: r'_def Let_def)
  from a have res: "post_review_helpful e user rid h st
                      = (Inr (helpfulVotes r'), Review_update r' st)"
    by (simp add: post_review_helpful_def canVote_def addVote_def hh r'_def Let_def)
  from a have "find (\<lambda>x. review_id x = rid) (reviews st) = Some r"
    by (simp add: findReviewById_def)
  from find_replaced[OF this rid']
  have found: "findReviewById (Review_update r' st) rid = Some r'"
    by (simp add: findReviewById_def Review_update_def Review_post_hook_frame)
  have votes: "votedBy r' = votedBy r @ [\<lparr>vote_user = user_id user, vote_helpful = helpful,
                                           votedAt = now e\<rparr>]"
    and tally: "helpfulVotes r' = helpfulVotes r + (if helpful then 1 else 0)"
    by (simp_all add: r'_def Let_def)
  from votes have "list_ex (\<lambda>vote. vote_user vote = user_id user) (votedBy r')"
    by simp
  with found have second: "\<forall>e' h'. post_review_helpful e' user rid h' (Review_update r' st)
                              = (Inl AlreadyVoted, Review_update r' st)"
    by (simp add: post_review_helpful_def canVote_def)
  from res found votes tally second
  show "\<exists>st' r'. post_review_helpful e user rid h st = (Inr (helpfulVotes r'), st')
            \<and> findReviewById st' rid = Some r'
            \<and> votedBy r' = votedBy r @ [\<lparr>vote_user = user_id user,
                                           vote_helpful = (h \<noteq> Some False),
                                           votedAt = now e\<rparr>]
            \<and> helpfulVotes r' = helpfulVotes r + (if h \<noteq> Some False then 1 else 0)
            \<and> (\<forall>e' h'. post_review_helpful e' user rid h' st' = (Inl AlreadyVoted, st'))"
    unfolding helpful_def
    by (intro exI[of _ "Review_update r' st"] exI[of _ r'] conjI)
qed

theorem helpful_vote_once_witness:
  "(\<exists>st' r'. post_review_helpful env4 reader 202 None shop_reviewed = (Inr 1, st')
       \<and> findReviewById st' 202 = Some r'
       \<and> votedBy r' = [\<lparr>vote_user = 8, vote_helpful = True, votedAt = 1700100000000\<rparr>]
       \<and> helpfulVotes r' = 1
       \<and> post_review_helpful env5 reader 202 (Some False) st' = (Inl AlreadyVoted, st'))
   \<and> (\<exists>st' r'. post_review_helpful env4 buyer 202 (Some False) shop_reviewed = (Inr 0, st')
       \<and> findReviewById st' 202 = Some r'
       \<and> votedBy r' = [\<lparr>vote_user = 7, vote_helpful = False, votedAt = 1700100000000\<rparr>]
       \<and> helpfulVotes r' = 0)"
proof -
  from example_review_found obtain r where
    r: "findReviewById shop_reviewed 202 = Some r" "votedBy r = []" "helpfulVotes r = 0"
    by blast
  from helpful_vote_once[where st = shop_reviewed and rid = 202 and r = r and user = reader
      and e = env4 and h = None, THEN conjunct2] r
  obtain st' r' where v: "post_review_helpful env4 reader 202 None shop_reviewed
                         = (Inr (helpfulVotes r'), st')"
    "findReviewById st' 202 = Some r'"
    "votedBy r' = votedBy r @ [\<lparr>vote_user = user_id reader, vote_helpful = (None \<noteq> Some False),
                                 votedAt = now env4\<rparr>]"
    "helpfulVotes r' = helpfulVotes r + (if None \<noteq> Some False then 1 else 0)"
    "\<forall>e' h'. post_review_helpful e' reader 202 h' st' = (Inl AlreadyVoted, st')"
    by auto
  then have first: "\<exists>st' r'. post_review_helpful env4 reader 202 None shop_reviewed = (Inr 1, st')
       \<and> findReviewById st' 202 = Some r'
       \<and> votedBy r' = [\<lparr>vote_user = 8, vote_helpful = True, votedAt = 1700100000000\<rparr>]
       \<and> helpfulVotes r' = 1
       \<and> post_review_helpful env5 reader 202 (Some False) st' = (Inl AlreadyVoted, st')"
    using r by (auto simp: reader_def env4_def)
  from helpful_vote_once[where st = shop_reviewed and rid = 202 and r = r and user = buyer
      and e = env4 and h = "Some False", THEN conjunct2] r
  obtain st'' r'' where w: "post_review_helpful env4 buyer 202 (Some False) shop_reviewed
                         = (Inr (helpfulVotes r''), st'')"
    "findReviewById st'' 202 = Some r''"
    "votedBy r'' = votedBy r @ [\<lparr>vote_user = user_id buyer,
                                  vote_helpful = (Some False \<noteq> Some False),
                                  votedAt = now env4\<rparr>]"
    "helpfulVotes r'' = helpfulVotes r + (if Some False \<noteq> Some False then 1 else 0)"
    by auto
  then have second: "\<exists>st' r'. post_review_helpful env4 buyer 202 (Some False) shop_reviewed = (Inr 0, st')
       \<and> findReviewById st' 202 = Some r'
       \<and> votedBy r' = [\<lparr>vote_user = 7, vote_helpful = False, votedAt = 1700100000000\<rparr>]
       \<and> helpfulVotes r' = 0"
    using r by (auto simp: buyer_def env4_def)
  from first second show ?thesis by blast
qed

subsection \<open>C10: products that do not track inventory\<close>

text \<open>
  C10. A product that does not track inventory is left as it is, and so are its
  \<^verbatim>\<open>inventory.quantity\<close> and \<^verbatim>\<open>stats.totalSold\<close>, by every order creation and every
  cancellation, whether the request succeeds or fails. Its availability does not depend on
  the quantity: \<^verbatim>\<open>isAvailable(q)\<close> is true for every \<open>q\<close> exactly when the product is active.
\<close>

theorem untracked_inventory_untouched:
  assumes "products st pid = Some p" and "\<not> inventory_trackInventory p"
  shows "products (snd (post_orders e user body st)) pid = Some p
       \<and> products (snd (post_order_cancel e user oid why st)) pid = Some p
       \<and> (\<forall>q. isAvailable p q = isActive p)"
proof -
  have create: "products (snd (post_orders e user body st)) pid = Some p"
  proof (cases "createOrder_loop e (body_items body) 0 [] st")
    case (Pair res s1)
    from createOrder_loop_untracked[OF Pair assms] have s1: "products s1 pid = Some p" .
    show ?thesis
    proof (cases res)
      case (Inl err)
      with Pair s1 assms show ?thesis by (simp add: post_orders_def createOrder_def)
    next
      case (Inr r)
      obtain sub ois where "r = (sub, ois)" by (cases r)
      with Pair Inr s1 assms show ?thesis
        by (simp add: post_orders_def createOrder_def Let_def Order_save_new)
    qed
  qed
  have cancel: "products (snd (post_order_cancel e user oid why st)) pid = Some p"
  proof (cases "orders st oid")
    case None
    with assms show ?thesis by (simp add: post_order_cancel_def)
  next
    case (Some stored)
    obtain res s1 where r: "restoreInventory e (items stored) st = (res, s1)"
      by (cases "restoreInventory e (items stored) st")
    from restoreInventory_untracked[OF r assms] have "products s1 pid = Some p" .
    with Some r assms show ?thesis
      by (cases res) (auto simp: post_order_cancel_def Let_def Order_save_loaded)
  qed
  have "\<forall>q. isAvailable p q = isActive p"
    using assms(2) by (simp add: isAvailable_def)
  with create cancel show ?thesis by blast
qed

theorem untracked_inventory_untouched_witness:
  "products shop 12 = Some poster \<and> \<not> inventory_trackInventory poster
   \<and> products (snd (post_orders env1 buyer body1 shop)) 12 = Some poster
   \<and> products (snd (post_order_cancel env2 buyer 100 None shop1)) 12 = Some poster
   \<and> isAvailable poster 1000"
proof -
  have b: "products shop 12 = Some poster" by (simp add: shop_def)
  have t: "\<not> inventory_trackInventory poster" by (simp add: poster_def)
  have "products shop1 12 = Some poster" by (simp add: shop1_def shop_def)
  note u = untracked_inventory_untouched[OF this t, of env2 buyer body1 100 None]
  note v = untracked_inventory_untouched[OF b t, of env1 buyer body1 100 None]
  from v have c: "products (snd (post_orders env1 buyer body1 shop)) 12 = Some poster"
    by blast
  from u have d: "products (snd (post_order_cancel env2 buyer 100 None shop1)) 12 = Some poster"
    by blast
  from v have "isAvailable poster 1000 = isActive poster" by blast
  then have a: "isAvailable poster 1000" by (simp add: poster_def)
  from b t c d a show ?thesis by blast
qed

end
